theory Spec2Isabelle
  imports Main "HOL-Library.Char_ord" "HOL-Library.List_Lexorder"
begin

section \<open>Cloudflare Workers client: a model of workers.go\<close>

text \<open>
  The file workers.go is modelled function by function. Three collaborators are outside
  the file and are taken as parameters: the package encoding/json (\<open>json_pkg\<close>), the
  package mime/multipart writing into a bytes.Buffer (\<open>multipart_pkg\<close>), and the two
  request methods of the API client (fields of the record \<open>API\<close>). Instances that
  describe the Go standard library are given further down (\<open>go_json\<close>,
  \<open>go_multipart\<close>).

  A Go function that returns \<open>(value, error)\<close> becomes a function into \<open>error + value\<close>;
  on the error paths the source returns a zero or partly filled value beside the error,
  which the model drops. A nil-pointer panic is the result \<open>Panics\<close>.
\<close>

subsection \<open>Errors\<close>

datatype error =
    ErrorNew string         \<comment> \<open>errors.New(msg), and the errors of the collaborators\<close>
  | Wrap error string       \<comment> \<open>errors.Wrap(err, msg)\<close>

datatype 'a result = Returns 'a | Panics

text \<open>Modelled from the spec: the constant errMakeRequestError is declared outside
  workers.go; the spec names the stage tag of a transport error "request failed".\<close>

definition errMakeRequestError :: string where
  "errMakeRequestError = ''request failed''"

text \<open>Modelled from the spec: the constant errUnmarshalError is declared outside
  workers.go; the spec names the stage tag of a decode error "unmarshal failed".\<close>

definition errUnmarshalError :: string where
  "errUnmarshalError = ''unmarshal failed''"

definition errOrganizationIDRequired :: error where
  "errOrganizationIDRequired = ErrorNew ''organization ID required for enterprise only request''"

subsection \<open>Data\<close>

record WorkerRequestParams =
  ZoneID :: string
  ScriptName :: string

type_synonym RawMessage = string

text \<open>A bindingBodyWriter is a \<open>func(*multipart.Writer) error\<close>: it acts on the writer
  (state \<open>'w\<close>) and returns an error or nil.\<close>

type_synonym 'w bindingBodyWriter = "'w \<Rightarrow> error option \<times> 'w"

text \<open>WorkerBinding is an interface with the single method \<open>serialize\<close>; a value of the
  interface is modelled by that method. The writer component is \<open>None\<close> for nil.\<close>

type_synonym 'w WorkerBinding = "string \<Rightarrow> error + (RawMessage \<times> 'w bindingBodyWriter option)"

text \<open>\<open>Bindings\<close> is a Go map. Go leaves the order in which \<open>range\<close> visits a map
  unspecified, so the model holds the entries as a list: the entries of the map in the
  order in which the run at hand visits them. The keys of a map are distinct; two lists
  with the same \<open>map_of\<close> stand for the same Go map, visited in different orders.\<close>

record 'w WorkerScriptParams =
  Script :: string
  Bindings :: "(string \<times> 'w WorkerBinding) list"

record WorkerRoute =
  ID :: string
  Pattern :: string
  Enabled :: bool
  Script :: string

text \<open>Modelled from the spec: the struct Response is declared outside workers.go; the
  spec gives the envelope as {result, success, errors: [], messages: []}.\<close>

type_synonym ResponseInfo = "int \<times> string"

record Response =
  Success :: bool
  Errors :: "ResponseInfo list"
  Messages :: "ResponseInfo list"

type_synonym Time = int

record WorkerMetaData =
  ID :: string
  ETAG :: string
  Size :: int
  CreatedOn :: Time
  ModifiedOn :: Time

record WorkerScript =
  WorkerMetaData :: WorkerMetaData
  Script :: string

record WorkerRoutesResponse =
  Response :: Response
  Routes :: "WorkerRoute list"

record WorkerRouteResponse =
  Response :: Response
  WorkerRoute :: WorkerRoute

record WorkerListResponse =
  Response :: Response
  WorkerList :: "WorkerMetaData list"

record WorkerScriptResponse =
  Response :: Response
  WorkerScript :: WorkerScript

text \<open>The zero value of WorkerScriptResponse (\<open>var r WorkerScriptResponse\<close>).\<close>

definition zero_WorkerScriptResponse :: WorkerScriptResponse where
  "zero_WorkerScriptResponse =
     \<lparr> WorkerScriptResponse.Response = \<lparr> Success = False, Errors = [], Messages = [] \<rparr>,
       WorkerScript = \<lparr> WorkerMetaData =
           \<lparr> WorkerMetaData.ID = [], ETAG = [], Size = 0, CreatedOn = 0, ModifiedOn = 0 \<rparr>,
         WorkerScript.Script = [] \<rparr> \<rparr>"

subsection \<open>The collaborators\<close>

text \<open>The two structs that workers.go hands to json.Marshal.\<close>

record meta =
  Name :: string
  Type :: string
  OldName :: string

record metadata =
  BodyPart :: string
  Bindings :: "RawMessage list"

record json_pkg =
  Marshal_meta :: "meta \<Rightarrow> error + string"
  Marshal_metadata :: "metadata \<Rightarrow> error + string"
  Unmarshal_WorkerScriptResponse :: "string \<Rightarrow> error + WorkerScriptResponse"
  Unmarshal_WorkerListResponse :: "string \<Rightarrow> error + WorkerListResponse"
  Unmarshal_WorkerRouteResponse :: "string \<Rightarrow> error + WorkerRouteResponse"
  Unmarshal_WorkerRoutesResponse :: "string \<Rightarrow> error + WorkerRoutesResponse"

text \<open>textproto.MIMEHeader, used with \<open>Set\<close> only: one value for each key. \<open>Set\<close> stores
  the key in canonical form (first letter and every letter after a hyphen in upper case,
  the others in lower case).\<close>

type_synonym MIMEHeader = "(string \<times> string) list"

definition upper_char :: "char \<Rightarrow> char" where
  "upper_char c = (let n = (of_char c :: nat) in if 97 \<le> n \<and> n \<le> 122 then char_of (n - 32) else c)"

definition lower_char :: "char \<Rightarrow> char" where
  "lower_char c = (let n = (of_char c :: nat) in if 65 \<le> n \<and> n \<le> 90 then char_of (n + 32) else c)"

fun canonical :: "bool \<Rightarrow> string \<Rightarrow> string" where
  "canonical up [] = []"
| "canonical up (c # cs) =
     (if up then upper_char c else lower_char c) # canonical (c = CHR ''-'') cs"

definition CanonicalMIMEHeaderKey :: "string \<Rightarrow> string" where
  "CanonicalMIMEHeaderKey k = canonical True k"

definition MIMEHeader_Set :: "string \<Rightarrow> string \<Rightarrow> MIMEHeader \<Rightarrow> MIMEHeader" where
  "MIMEHeader_Set k v h =
     (CanonicalMIMEHeaderKey k, v) # filter (\<lambda>(k', _). k' \<noteq> CanonicalMIMEHeaderKey k) h"

text \<open>mime/multipart. The state \<open>'w\<close> is what is reached from \<open>buf\<close> and \<open>mpw\<close>: the
  buffer and the writer on it. \<open>CreatePart\<close> returns \<open>(io.Writer, error)\<close>, each of which
  may be nil; \<open>'p\<close> names the part that the returned io.Writer writes to.\<close>

record ('w, 'p) multipart_pkg =
  NewWriter :: "'w"
  CreatePart :: "MIMEHeader \<Rightarrow> 'w \<Rightarrow> ('p option \<times> error option) \<times> 'w"
  Write :: "'p \<Rightarrow> string \<Rightarrow> 'w \<Rightarrow> error option \<times> 'w"
  Close :: "'w \<Rightarrow> error option \<times> 'w"
  FormDataContentType :: "'w \<Rightarrow> string"
  Bytes :: "'w \<Rightarrow> string"

text \<open>The API client. \<open>makeRequest\<close> and \<open>makeRequestWithHeaders\<close> are methods defined
  outside workers.go; they are fields here. The \<open>params\<close> argument of makeRequest is
  nil or a WorkerRoute in this file.\<close>

datatype params = NoParams | RouteParams WorkerRoute

type_synonym Header = "(string \<times> string) list"

record API =
  OrganizationID :: string
  makeRequest :: "string \<Rightarrow> string \<Rightarrow> params \<Rightarrow> error + string"
  makeRequestWithHeaders :: "string \<Rightarrow> string \<Rightarrow> string \<Rightarrow> Header \<Rightarrow> error + string"

text \<open>To say which requests an operation makes, every operation returns the list of
  calls it made on the two request methods, in order, beside its result.\<close>

datatype call =
    MakeRequest string string params
  | MakeRequestWithHeaders string string string Header

subsection \<open>Bindings\<close>

record WorkerInheritBinding =
  OldName :: string

text \<open>\<open>WorkerInheritBinding.serialize\<close>. The struct tags of \<open>meta\<close> (the field names
  and omitempty) belong to json.Marshal and are in the instance \<open>go_json\<close>.\<close>

definition WorkerInheritBinding_serialize ::
  "json_pkg \<Rightarrow> WorkerInheritBinding \<Rightarrow> 'w WorkerBinding" where
  "WorkerInheritBinding_serialize J b name =
     (case Marshal_meta J \<lparr> Name = name, Type = ''inherit'',
                              meta.OldName = WorkerInheritBinding.OldName b \<rparr> of
        Inl err \<Rightarrow> Inl err
      | Inr metadata \<Rightarrow> Inr (metadata, None))"

subsection \<open>The multipart body\<close>

definition hasKey :: "(string \<times> 'b) list \<Rightarrow> string \<Rightarrow> bool" where
  "hasKey m key = (case map_of m key of None \<Rightarrow> False | Some _ \<Rightarrow> True)"

text \<open>The loop \<open>for hasKey(params.Bindings, scriptBodyPart) { scriptBodyPart += "_" }\<close>.\<close>

function scriptBodyPart_loop :: "(string \<times> 'b) list \<Rightarrow> string \<Rightarrow> string" where
  "scriptBodyPart_loop m scriptBodyPart =
     (if hasKey m scriptBodyPart then scriptBodyPart_loop m (scriptBodyPart @ ''_'')
      else scriptBodyPart)"
  by pat_completeness auto
termination
proof (relation "measure (\<lambda>(m, s). Suc (Max (insert 0 (length ` fst ` set m))) - length s)")
  show "wf (measure (\<lambda>(m :: (string \<times> 'b) list, s).
              Suc (Max (insert 0 (length ` fst ` set m))) - length s))"
    by simp
next
  fix m :: "(string \<times> 'b) list" and s :: string
  assume "hasKey m s"
  then have "s \<in> fst ` set m"
    by (auto simp: hasKey_def split: option.splits dest!: map_of_SomeD intro: rev_image_eqI)
  then have "length s \<le> Max (insert 0 (length ` fst ` set m))"
    by (intro Max_ge) auto
  then show "((m, s @ ''_''), (m, s))
      \<in> measure (\<lambda>(m, s). Suc (Max (insert 0 (length ` fst ` set m))) - length s)"
    by simp
qed

declare scriptBodyPart_loop.simps [simp del]

text \<open>The loop \<open>for name, b := range params.Bindings\<close>: it serializes every binding and
  appends to \<open>meta.Bindings\<close> and to \<open>bodyWriters\<close>; the first error ends the function.
  The two accumulators are the slices built so far.\<close>

fun serialize_loop ::
  "(string \<times> 'w WorkerBinding) list \<Rightarrow> RawMessage list \<Rightarrow> 'w bindingBodyWriter option list \<Rightarrow>
   error + (RawMessage list \<times> 'w bindingBodyWriter option list)" where
  "serialize_loop [] metaBindings bodyWriters = Inr (metaBindings, bodyWriters)"
| "serialize_loop ((name, b) # rest) metaBindings bodyWriters =
     (case b name of
        Inl err \<Rightarrow> Inl err
      | Inr (bindingMeta, bodyWriter) \<Rightarrow>
          serialize_loop rest (metaBindings @ [bindingMeta]) (bodyWriters @ [bodyWriter]))"

text \<open>The loop \<open>for _, w := range bodyWriters\<close>.\<close>

fun bodyWriters_loop :: "'w bindingBodyWriter option list \<Rightarrow> 'w \<Rightarrow> error + 'w" where
  "bodyWriters_loop [] mpw = Inr mpw"
| "bodyWriters_loop (None # ws) mpw = bodyWriters_loop ws mpw"
| "bodyWriters_loop (Some w # ws) mpw =
     (case w mpw of
        (Some err, _) \<Rightarrow> Inl err
      | (None, mpw') \<Rightarrow> bodyWriters_loop ws mpw')"

definition metadata_header :: MIMEHeader where
  \<open>metadata_header =
     MIMEHeader_Set ''content-type'' ''application/json''
       (MIMEHeader_Set ''content-disposition'' (''form-data; name="'' @ ''metadata'' @ ''"'') [])\<close>

definition script_header :: "string \<Rightarrow> MIMEHeader" where
  \<open>script_header scriptBodyPart =
     MIMEHeader_Set ''content-type'' ''application/javascript''
       (MIMEHeader_Set ''content-disposition'' (''form-data; name="'' @ scriptBodyPart @ ''"'') [])\<close>

text \<open>\<open>formatMultipartBody\<close>, in the order of the source. The result of the source is
  (content type, body, error). \<open>defer mpw.Close()\<close> runs after the results have been
  evaluated and changes none of them; it is left out. At the script part the error of
  CreatePart is assigned to \<open>err\<close> and assigned again by the Write that follows, before
  it is read; a nil \<open>pw\<close> makes \<open>pw.Write\<close> panic.\<close>

definition formatMultipartBody ::
  "json_pkg \<Rightarrow> ('w, 'p) multipart_pkg \<Rightarrow> 'w WorkerScriptParams \<Rightarrow> (error + string \<times> string) result" where
  "formatMultipartBody J M params =
     (let mpw = NewWriter M;
          scriptBodyPart = scriptBodyPart_loop (WorkerScriptParams.Bindings params) ''script''
      in case serialize_loop (WorkerScriptParams.Bindings params) [] [] of
           Inl err \<Rightarrow> Returns (Inl err)
         | Inr (metaBindings, bodyWriters) \<Rightarrow>
             let meta = \<lparr> BodyPart = scriptBodyPart, metadata.Bindings = metaBindings \<rparr>
             in case CreatePart M metadata_header mpw of
                  ((pw, Some err), mpw) \<Rightarrow> Returns (Inl err)
                | ((pw, None), mpw) \<Rightarrow>
                    (case Marshal_metadata J meta of
                       Inl err \<Rightarrow> Returns (Inl err)
                     | Inr metaJson \<Rightarrow>
                         (case pw of
                            None \<Rightarrow> Panics
                          | Some p \<Rightarrow>
                              (case Write M p metaJson mpw of
                                 (Some err, mpw) \<Rightarrow> Returns (Inl err)
                               | (None, mpw) \<Rightarrow>
                                   (case CreatePart M (script_header scriptBodyPart) mpw of
                                      ((pw, err), mpw) \<Rightarrow>
                                        (case pw of
                                           None \<Rightarrow> Panics
                                         | Some p \<Rightarrow>
                                             (case Write M p (WorkerScriptParams.Script params) mpw of
                                                (Some err, mpw) \<Rightarrow> Returns (Inl err)
                                              | (None, mpw) \<Rightarrow>
                                                  (case bodyWriters_loop bodyWriters mpw of
                                                     Inl err \<Rightarrow> Returns (Inl err)
                                                   | Inr mpw \<Rightarrow>
                                                       (case Close M mpw of
                                                          (_, mpw) \<Rightarrow>
                                                            Returns (Inr (FormDataContentType M mpw,
                                                                          Bytes M mpw)))))))))))"

subsection \<open>Scripts: delete, download, list, upload\<close>

definition deleteWorkerWithName ::
  "json_pkg \<Rightarrow> API \<Rightarrow> string \<Rightarrow> call list \<times> (error + WorkerScriptResponse)" where
  "deleteWorkerWithName J api scriptName =
     (if OrganizationID api = '''' then ([], Inl errOrganizationIDRequired)
      else
        let uri = ''/accounts/'' @ OrganizationID api @ ''/workers/scripts/'' @ scriptName
        in ([MakeRequest ''DELETE'' uri NoParams],
            case makeRequest api ''DELETE'' uri NoParams of
              Inl err \<Rightarrow> Inl (Wrap err errMakeRequestError)
            | Inr res \<Rightarrow>
                (case Unmarshal_WorkerScriptResponse J res of
                   Inl err \<Rightarrow> Inl (Wrap err errUnmarshalError)
                 | Inr r \<Rightarrow> Inr r)))"

definition DeleteWorker ::
  "json_pkg \<Rightarrow> API \<Rightarrow> WorkerRequestParams \<Rightarrow> call list \<times> (error + WorkerScriptResponse)" where
  "DeleteWorker J api requestParams =
     (if ScriptName requestParams \<noteq> '''' then deleteWorkerWithName J api (ScriptName requestParams)
      else
        let uri = ''/zones/'' @ ZoneID requestParams @ ''/workers/script''
        in ([MakeRequest ''DELETE'' uri NoParams],
            case makeRequest api ''DELETE'' uri NoParams of
              Inl err \<Rightarrow> Inl (Wrap err errMakeRequestError)
            | Inr res \<Rightarrow>
                (case Unmarshal_WorkerScriptResponse J res of
                   Inl err \<Rightarrow> Inl (Wrap err errUnmarshalError)
                 | Inr r \<Rightarrow> Inr r)))"

text \<open>The two assignments \<open>r.Script = string(res)\<close> and \<open>r.Success = true\<close> of the
  download functions, on the zero value of \<open>r\<close>. Script and Success are promoted fields
  of the embedded structs.\<close>

definition downloaded :: "string \<Rightarrow> WorkerScriptResponse" where
  "downloaded res =
     (let r = zero_WorkerScriptResponse;
          r = r\<lparr> WorkerScript := (WorkerScript r)\<lparr> WorkerScript.Script := res \<rparr> \<rparr>;
          r = r\<lparr> WorkerScriptResponse.Response :=
                   (WorkerScriptResponse.Response r)\<lparr> Success := True \<rparr> \<rparr>
      in r)"

definition downloadWorkerWithName ::
  "API \<Rightarrow> string \<Rightarrow> call list \<times> (error + WorkerScriptResponse)" where
  "downloadWorkerWithName api scriptName =
     (if OrganizationID api = '''' then ([], Inl errOrganizationIDRequired)
      else
        let uri = ''/accounts/'' @ OrganizationID api @ ''/workers/scripts/'' @ scriptName
        in ([MakeRequest ''GET'' uri NoParams],
            case makeRequest api ''GET'' uri NoParams of
              Inl err \<Rightarrow> Inl (Wrap err errMakeRequestError)
            | Inr res \<Rightarrow> Inr (downloaded res)))"

definition DownloadWorker ::
  "API \<Rightarrow> WorkerRequestParams \<Rightarrow> call list \<times> (error + WorkerScriptResponse)" where
  "DownloadWorker api requestParams =
     (if ScriptName requestParams \<noteq> '''' then downloadWorkerWithName api (ScriptName requestParams)
      else
        let uri = ''/zones/'' @ ZoneID requestParams @ ''/workers/script''
        in ([MakeRequest ''GET'' uri NoParams],
            case makeRequest api ''GET'' uri NoParams of
              Inl err \<Rightarrow> Inl (Wrap err errMakeRequestError)
            | Inr res \<Rightarrow> Inr (downloaded res)))"

definition ListWorkerScripts ::
  "json_pkg \<Rightarrow> API \<Rightarrow> call list \<times> (error + WorkerListResponse)" where
  "ListWorkerScripts J api =
     (if OrganizationID api = '''' then ([], Inl errOrganizationIDRequired)
      else
        let uri = ''/accounts/'' @ OrganizationID api @ ''/workers/scripts''
        in ([MakeRequest ''GET'' uri NoParams],
            case makeRequest api ''GET'' uri NoParams of
              Inl err \<Rightarrow> Inl (Wrap err errMakeRequestError)
            | Inr res \<Rightarrow>
                (case Unmarshal_WorkerListResponse J res of
                   Inl err \<Rightarrow> Inl (Wrap err errUnmarshalError)
                 | Inr r \<Rightarrow> Inr r)))"

definition singleScriptUpload ::
  "json_pkg \<Rightarrow> API \<Rightarrow> string \<Rightarrow> string \<Rightarrow> string \<Rightarrow> call list \<times> (error + WorkerScriptResponse)" where
  "singleScriptUpload J api zoneId contentType body =
     (let uri = ''/zones/'' @ zoneId @ ''/workers/script'';
          headers = [(''Content-Type'', contentType)]
      in ([MakeRequestWithHeaders ''PUT'' uri body headers],
          case makeRequestWithHeaders api ''PUT'' uri body headers of
            Inl err \<Rightarrow> Inl (Wrap err errMakeRequestError)
          | Inr res \<Rightarrow>
              (case Unmarshal_WorkerScriptResponse J res of
                 Inl err \<Rightarrow> Inl (Wrap err errUnmarshalError)
               | Inr r \<Rightarrow> Inr r)))"

definition multiScriptUpload ::
  "json_pkg \<Rightarrow> API \<Rightarrow> string \<Rightarrow> string \<Rightarrow> string \<Rightarrow> call list \<times> (error + WorkerScriptResponse)" where
  "multiScriptUpload J api scriptName contentType body =
     (if OrganizationID api = '''' then ([], Inl errOrganizationIDRequired)
      else
        let uri = ''/accounts/'' @ OrganizationID api @ ''/workers/scripts/'' @ scriptName;
            headers = [(''Content-Type'', contentType)]
        in ([MakeRequestWithHeaders ''PUT'' uri body headers],
            case makeRequestWithHeaders api ''PUT'' uri body headers of
              Inl err \<Rightarrow> Inl (Wrap err errMakeRequestError)
            | Inr res \<Rightarrow>
                (case Unmarshal_WorkerScriptResponse J res of
                   Inl err \<Rightarrow> Inl (Wrap err errUnmarshalError)
                 | Inr r \<Rightarrow> Inr r)))"

definition UploadWorker ::
  "json_pkg \<Rightarrow> API \<Rightarrow> WorkerRequestParams \<Rightarrow> string \<Rightarrow> call list \<times> (error + WorkerScriptResponse)" where
  "UploadWorker J api requestParams data =
     (if ScriptName requestParams \<noteq> ''''
      then multiScriptUpload J api (ScriptName requestParams) ''application/javascript'' data
      else singleScriptUpload J api (ZoneID requestParams) ''application/javascript'' data)"

definition UploadWorkerWithBindings ::
  "json_pkg \<Rightarrow> ('w, 'p) multipart_pkg \<Rightarrow> API \<Rightarrow> WorkerRequestParams \<Rightarrow> 'w WorkerScriptParams \<Rightarrow>
   (call list \<times> (error + WorkerScriptResponse)) result" where
  "UploadWorkerWithBindings J M api requestParams data =
     (case formatMultipartBody J M data of
        Panics \<Rightarrow> Panics
      | Returns (Inl err) \<Rightarrow> Returns ([], Inl err)
      | Returns (Inr (contentType, body)) \<Rightarrow>
          (if ScriptName requestParams \<noteq> ''''
           then Returns (multiScriptUpload J api (ScriptName requestParams) contentType body)
           else Returns (singleScriptUpload J api (ZoneID requestParams) contentType body)))"

subsection \<open>Routes\<close>

text \<open>The choice of the path component in CreateWorkerRoute and UpdateWorkerRoute, with
  its early return.\<close>

definition route_pathComponent :: "API \<Rightarrow> WorkerRoute \<Rightarrow> error + string" where
  "route_pathComponent api route =
     (if WorkerRoute.Script route \<noteq> '''' then
        (if OrganizationID api = '''' then Inl errOrganizationIDRequired
         else Inr ''routes'')
      else Inr ''filters'')"

definition CreateWorkerRoute ::
  "json_pkg \<Rightarrow> API \<Rightarrow> string \<Rightarrow> WorkerRoute \<Rightarrow> call list \<times> (error + WorkerRouteResponse)" where
  "CreateWorkerRoute J api zoneID route =
     (case route_pathComponent api route of
        Inl err \<Rightarrow> ([], Inl err)
      | Inr pathComponent \<Rightarrow>
          let uri = ''/zones/'' @ zoneID @ ''/workers/'' @ pathComponent
          in ([MakeRequest ''POST'' uri (RouteParams route)],
              case makeRequest api ''POST'' uri (RouteParams route) of
                Inl err \<Rightarrow> Inl (Wrap err errMakeRequestError)
              | Inr res \<Rightarrow>
                  (case Unmarshal_WorkerRouteResponse J res of
                     Inl err \<Rightarrow> Inl (Wrap err errUnmarshalError)
                   | Inr r \<Rightarrow> Inr r)))"

definition DeleteWorkerRoute ::
  "json_pkg \<Rightarrow> API \<Rightarrow> string \<Rightarrow> string \<Rightarrow> call list \<times> (error + WorkerRouteResponse)" where
  "DeleteWorkerRoute J api zoneID routeID =
     (let uri = ''/zones/'' @ zoneID @ ''/workers/filters/'' @ routeID
      in ([MakeRequest ''DELETE'' uri NoParams],
          case makeRequest api ''DELETE'' uri NoParams of
            Inl err \<Rightarrow> Inl (Wrap err errMakeRequestError)
          | Inr res \<Rightarrow>
              (case Unmarshal_WorkerRouteResponse J res of
                 Inl err \<Rightarrow> Inl (Wrap err errUnmarshalError)
               | Inr r \<Rightarrow> Inr r)))"

text \<open>The loop \<open>for i := range r.Routes\<close> of ListWorkerRoutes, which updates the routes
  in place, one after the other.\<close>

fun routes_loop :: "WorkerRoute list \<Rightarrow> WorkerRoute list" where
  "routes_loop [] = []"
| "routes_loop (route # rest) =
     (if WorkerRoute.Script route \<noteq> '''' then route\<lparr> Enabled := True \<rparr> else route)
       # routes_loop rest"

definition ListWorkerRoutes ::
  "json_pkg \<Rightarrow> API \<Rightarrow> string \<Rightarrow> call list \<times> (error + WorkerRoutesResponse)" where
  "ListWorkerRoutes J api zoneID =
     (let pathComponent = (if OrganizationID api \<noteq> '''' then ''routes'' else ''filters'');
          uri = ''/zones/'' @ zoneID @ ''/workers/'' @ pathComponent
      in ([MakeRequest ''GET'' uri NoParams],
          case makeRequest api ''GET'' uri NoParams of
            Inl err \<Rightarrow> Inl (Wrap err errMakeRequestError)
          | Inr res \<Rightarrow>
              (case Unmarshal_WorkerRoutesResponse J res of
                 Inl err \<Rightarrow> Inl (Wrap err errUnmarshalError)
               | Inr r \<Rightarrow> Inr (r\<lparr> Routes := routes_loop (Routes r) \<rparr>))))"

definition UpdateWorkerRoute ::
  "json_pkg \<Rightarrow> API \<Rightarrow> string \<Rightarrow> string \<Rightarrow> WorkerRoute \<Rightarrow> call list \<times> (error + WorkerRouteResponse)" where
  "UpdateWorkerRoute J api zoneID routeID route =
     (case route_pathComponent api route of
        Inl err \<Rightarrow> ([], Inl err)
      | Inr pathComponent \<Rightarrow>
          let uri = ''/zones/'' @ zoneID @ ''/workers/'' @ pathComponent @ ''/'' @ routeID
          in ([MakeRequest ''PUT'' uri (RouteParams route)],
              case makeRequest api ''PUT'' uri (RouteParams route) of
                Inl err \<Rightarrow> Inl (Wrap err errMakeRequestError)
              | Inr res \<Rightarrow>
                  (case Unmarshal_WorkerRouteResponse J res of
                     Inl err \<Rightarrow> Inl (Wrap err errUnmarshalError)
                   | Inr r \<Rightarrow> Inr r)))"

subsection \<open>The Go standard library\<close>

text \<open>encoding/json on the two structs, following their struct tags: \<open>meta\<close> has the
  fields "name", "type" and "old_name,omitempty"; \<open>metadata\<close> has "body_part" and
  "bindings", a slice of json.RawMessage that is never nil here. A string is written
  between double quotes; the double quote and the backslash get a backslash, line feed,
  carriage return and tab become \<open>\n\<close>, \<open>\r\<close>, \<open>\t\<close>, the other control characters and
  \<open><\<close>, \<open>>\<close>, \<open>&\<close> become \<open>\u00XX\<close>; bytes from 0x80 on are copied (the model
  describes strings that are valid UTF-8 without U+2028 and U+2029). Marshal copies a
  RawMessage that is a compact JSON text, which is what Marshal returns, as it is; the
  model describes such fragments only.\<close>

definition hex_digit :: "nat \<Rightarrow> char" where
  "hex_digit n = ''0123456789abcdef'' ! n"

definition json_escape :: "char \<Rightarrow> string" where
  \<open>json_escape c =
     (let n = (of_char c :: nat) in
      if c = CHR 0x22 then [CHR 0x5C, CHR 0x22]
      else if c = CHR 0x5C then [CHR 0x5C, CHR 0x5C]
      else if c = CHR 0x0A then [CHR 0x5C, CHR ''n'']
      else if c = CHR 0x0D then [CHR 0x5C, CHR ''r'']
      else if c = CHR 0x09 then [CHR 0x5C, CHR ''t'']
      else if n < 32 \<or> c = CHR ''<'' \<or> c = CHR ''>'' \<or> c = CHR ''&''
      then [CHR 0x5C] @ ''u00'' @ [hex_digit (n div 16), hex_digit (n mod 16)]
      else [c])\<close>

definition json_string :: "string \<Rightarrow> string" where
  \<open>json_string s = ''"'' @ concat (map json_escape s) @ ''"''\<close>

fun comma_join :: "string list \<Rightarrow> string" where
  "comma_join [] = []"
| "comma_join [x] = x"
| "comma_join (x # y # ys) = x @ '','' @ comma_join (y # ys)"

definition go_Marshal_meta :: "meta \<Rightarrow> error + string" where
  \<open>go_Marshal_meta m =
     Inr (''{"name":'' @ json_string (Name m) @ '',"type":'' @ json_string (Type m) @
          (if meta.OldName m = [] then [] else '',"old_name":'' @ json_string (meta.OldName m)) @
          ''}'')\<close>

definition go_Marshal_metadata :: "metadata \<Rightarrow> error + string" where
  \<open>go_Marshal_metadata m =
     Inr (''{"body_part":'' @ json_string (BodyPart m) @
          '',"bindings":['' @ comma_join (metadata.Bindings m) @ '']}'')\<close>

text \<open>The instance of \<open>json_pkg\<close>; how the response envelopes are decoded stays a
  parameter.\<close>

definition go_json :: "json_pkg \<Rightarrow> json_pkg" where
  "go_json U = U\<lparr> Marshal_meta := go_Marshal_meta, Marshal_metadata := go_Marshal_metadata \<rparr>"

text \<open>mime/multipart on a bytes.Buffer, whose Write never fails. The state holds the
  bytes of the buffer, the part that is open (\<open>lastpart\<close>) and the number of parts made
  so far, which names the next part. The boundary, which NewWriter draws at random
  (sixty hexadecimal digits), is the parameter \<open>b\<close>.\<close>

record Writer =
  buf :: string
  lastpart :: "nat option"
  nparts :: nat

definition CRLF :: string where
  "CRLF = [CHR 0x0D, CHR 0x0A]"

definition header_lines :: "MIMEHeader \<Rightarrow> string" where
  "header_lines h = concat (map (\<lambda>(k, v). k @ '': '' @ v @ CRLF) (sort_key fst h))"

definition go_CreatePart :: "string \<Rightarrow> MIMEHeader \<Rightarrow> Writer \<Rightarrow> (nat option \<times> error option) \<times> Writer" where
  "go_CreatePart b header w =
     ((Some (nparts w), None),
      w\<lparr> buf := buf w
             @ (if lastpart w \<noteq> None then CRLF @ ''--'' @ b @ CRLF else ''--'' @ b @ CRLF)
             @ header_lines header @ CRLF,
         lastpart := Some (nparts w),
         nparts := Suc (nparts w) \<rparr>)"

definition go_Write :: "nat \<Rightarrow> string \<Rightarrow> Writer \<Rightarrow> error option \<times> Writer" where
  "go_Write p d w =
     (if lastpart w = Some p then (None, w\<lparr> buf := buf w @ d \<rparr>)
      else (Some (ErrorNew (''multipart: can'' @ [CHR 0x27] @ ''t write to finished part'')), w))"

definition go_Close :: "string \<Rightarrow> Writer \<Rightarrow> error option \<times> Writer" where
  "go_Close b w = (None, w\<lparr> buf := buf w @ CRLF @ ''--'' @ b @ ''--'' @ CRLF, lastpart := None \<rparr>)"

definition go_FormDataContentType :: "string \<Rightarrow> string" where
  \<open>go_FormDataContentType b =
     ''multipart/form-data; boundary='' @
       (if list_ex (\<lambda>c. List.member (''()<>@,;:"/[]?= '' @ [CHR 0x5C]) c) b then ''"'' @ b @ ''"''
        else b)\<close>

definition go_multipart :: "string \<Rightarrow> (Writer, nat) multipart_pkg" where
  "go_multipart b =
     \<lparr> NewWriter = \<lparr> buf = [], lastpart = None, nparts = 0 \<rparr>,
       CreatePart = go_CreatePart b,
       Write = go_Write,
       Close = go_Close b,
       FormDataContentType = (\<lambda>w. go_FormDataContentType b),
       Bytes = buf \<rparr>"

subsection \<open>Reading a multipart body\<close>

text \<open>The bytes of a multipart message as mime/multipart lays them out: every part is a
  delimiter line (after a line break, except for the first part), the header lines, an
  empty line and the content; the message ends with the closing delimiter. The theorems
  on \<open>formatMultipartBody\<close> describe the body with these two functions.\<close>

definition mime_part :: "string \<Rightarrow> bool \<Rightarrow> MIMEHeader \<Rightarrow> string \<Rightarrow> string" where
  "mime_part b first header content =
     (if first then [] else CRLF) @ ''--'' @ b @ CRLF @ header_lines header @ CRLF @ content"

definition mime_end :: "string \<Rightarrow> string" where
  "mime_end b = CRLF @ ''--'' @ b @ ''--'' @ CRLF"

text \<open>The bindings of a map whose values are all WorkerInheritBinding, the only
  implementation of WorkerBinding in the package, as interface values.\<close>

definition inherit_bindings ::
  "json_pkg \<Rightarrow> (string \<times> WorkerInheritBinding) list \<Rightarrow> (string \<times> 'w WorkerBinding) list" where
  "inherit_bindings J nbs = map (\<lambda>(name, b). (name, WorkerInheritBinding_serialize J b)) nbs"

text \<open>What \<open>go_json\<close> makes of one inherit binding, and of the metadata of a map of
  inherit bindings.\<close>

definition inherit_fragment :: "string \<times> WorkerInheritBinding \<Rightarrow> RawMessage" where
  \<open>inherit_fragment nb =
     ''{"name":'' @ json_string (fst nb) @ '',"type":'' @ json_string ''inherit'' @
     (if WorkerInheritBinding.OldName (snd nb) = [] then []
      else '',"old_name":'' @ json_string (WorkerInheritBinding.OldName (snd nb))) @ ''}''\<close>

definition inherit_metadata :: "(string \<times> WorkerInheritBinding) list \<Rightarrow> string" where
  \<open>inherit_metadata nbs =
     ''{"body_part":'' @ json_string (scriptBodyPart_loop nbs ''script'') @
     '',"bindings":['' @ comma_join (map inherit_fragment nbs) @ '']}''\<close>

text \<open>The body writers that the bindings supplied, and what invoking each of them once,
  in order, against the writer does; the first error ends the run.\<close>

fun supplied :: "'w bindingBodyWriter option list \<Rightarrow> 'w bindingBodyWriter list" where
  "supplied [] = []"
| "supplied (None # ws) = supplied ws"
| "supplied (Some w # ws) = w # supplied ws"

fun invoke_each :: "'w bindingBodyWriter list \<Rightarrow> 'w \<Rightarrow> error + 'w" where
  "invoke_each [] mpw = Inr mpw"
| "invoke_each (w # ws) mpw =
     (case w mpw of
        (Some err, _) \<Rightarrow> Inl err
      | (None, mpw') \<Rightarrow> invoke_each ws mpw')"

text \<open>A multipart package that differs from \<open>M\<close> in one point only: for every header but
  the metadata header, CreatePart returns the error \<open>e\<close> (or nil, for \<open>None\<close>) in place
  of the error that \<open>M\<close> returns; the part and the state are those of \<open>M\<close>.\<close>

definition with_CreatePart_error ::
  "error option \<Rightarrow> ('w, 'p) multipart_pkg \<Rightarrow> ('w, 'p) multipart_pkg" where
  "with_CreatePart_error e M =
     M\<lparr> CreatePart := (\<lambda>header mpw.
          if header = metadata_header then CreatePart M header mpw
          else (case CreatePart M header mpw of ((pw, _), mpw') \<Rightarrow> ((pw, e), mpw'))) \<rparr>"

subsection \<open>Scenarios\<close>

text \<open>Clients and decoders for the examples: a client whose requests all fail, a client
  whose requests all return the same bytes, and a \<open>json_pkg\<close> that encodes as Go does
  and decodes no response.\<close>

definition server_down :: "string \<Rightarrow> API" where
  "server_down org =
     \<lparr> OrganizationID = org,
       makeRequest = (\<lambda>method uri params. Inl (ErrorNew ''connection refused'')),
       makeRequestWithHeaders = (\<lambda>method uri body headers. Inl (ErrorNew ''connection refused'')) \<rparr>"

definition server_replies :: "string \<Rightarrow> string \<Rightarrow> API" where
  "server_replies org res =
     \<lparr> OrganizationID = org,
       makeRequest = (\<lambda>method uri params. Inr res),
       makeRequestWithHeaders = (\<lambda>method uri body headers. Inr res) \<rparr>"

definition no_decode :: json_pkg where
  "no_decode =
     \<lparr> Marshal_meta = go_Marshal_meta,
       Marshal_metadata = go_Marshal_metadata,
       Unmarshal_WorkerScriptResponse = (\<lambda>res. Inl (ErrorNew ''unexpected end of JSON input'')),
       Unmarshal_WorkerListResponse = (\<lambda>res. Inl (ErrorNew ''unexpected end of JSON input'')),
       Unmarshal_WorkerRouteResponse = (\<lambda>res. Inl (ErrorNew ''unexpected end of JSON input'')),
       Unmarshal_WorkerRoutesResponse = (\<lambda>res. Inl (ErrorNew ''unexpected end of JSON input'')) \<rparr>"

text \<open>The bindings of \<open>TestWorkers_UploadWorkerWithInheritBinding\<close>, in the order in which
  the test inserts them and in the other order.\<close>

definition b1_b2 :: "(string \<times> WorkerInheritBinding) list" where
  "b1_b2 = [(''b1'', \<lparr> WorkerInheritBinding.OldName = [] \<rparr>),
            (''b2'', \<lparr> WorkerInheritBinding.OldName = ''old_binding_name'' \<rparr>)]"

definition b2_b1 :: "(string \<times> WorkerInheritBinding) list" where
  "b2_b1 = [(''b2'', \<lparr> WorkerInheritBinding.OldName = ''old_binding_name'' \<rparr>),
            (''b1'', \<lparr> WorkerInheritBinding.OldName = [] \<rparr>)]"

text \<open>A multipart package that works as Go's for the first part and fails, as
  CreatePart of mime/multipart fails (nil writer, error), for every later one.\<close>

definition failing_second_part :: "(Writer, nat) multipart_pkg" where
  "failing_second_part =
     (go_multipart ''B'')\<lparr> CreatePart := (\<lambda>header w.
        if lastpart w = None then go_CreatePart ''B'' header w
        else ((None, Some (ErrorNew ''short write'')), w)) \<rparr>"

text \<open>A decoder that reads every list of routes as \<open>r\<close>, and a route as the
  multi-script API lists it: with a script and, the flag being absent from the response,
  with Enabled false.\<close>

definition decode_routes :: "WorkerRoutesResponse \<Rightarrow> json_pkg" where
  "decode_routes r = no_decode\<lparr> Unmarshal_WorkerRoutesResponse := (\<lambda>res. Inr r) \<rparr>"

definition scripted_route :: WorkerRoute where
  "scripted_route =
     \<lparr> WorkerRoute.ID = ''e7a57d8746e74ae49c25994dadb421b1'', Pattern = ''app1.example.com/*'',
       Enabled = False, WorkerRoute.Script = ''test_script_1'' \<rparr>"

definition success :: Response where
  "success = \<lparr> Success = True, Errors = [], Messages = [] \<rparr>"

section \<open>Properties\<close>

subsection \<open>The name of the script part\<close>

lemma hasKey_iff: "hasKey m k \<longleftrightarrow> k \<in> fst ` set m"
proof -
  have "hasKey m k \<longleftrightarrow> map_of m k \<noteq> None"
    by (simp add: hasKey_def split: option.splits)
  then show ?thesis
    by (simp add: map_of_eq_None_iff)
qed

lemma scriptBodyPart_loop_not_hasKey: "\<not> hasKey m (scriptBodyPart_loop m s)"
  by (induction m s rule: scriptBodyPart_loop.induct) (subst scriptBodyPart_loop.simps, simp)

lemma scriptBodyPart_loop_markers:
  "\<exists>n. scriptBodyPart_loop m s = s @ replicate n CHR ''_''
       \<and> (\<forall>k<n. hasKey m (s @ replicate k CHR ''_''))"
proof (induction m s rule: scriptBodyPart_loop.induct)
  case (1 m s)
  show ?case
  proof (cases "hasKey m s")
    case False
    then have "scriptBodyPart_loop m s = s @ replicate 0 CHR ''_''"
      by (subst scriptBodyPart_loop.simps) simp
    then show ?thesis by blast
  next
    case True
    with 1 obtain n where n: "scriptBodyPart_loop m (s @ ''_'') = (s @ ''_'') @ replicate n CHR ''_''"
      and coll: "\<forall>k<n. hasKey m ((s @ ''_'') @ replicate k CHR ''_'')"
      by blast
    have eq: "\<And>k. (s @ ''_'') @ replicate k CHR ''_'' = s @ replicate (Suc k) CHR ''_''"
      by simp
    have "scriptBodyPart_loop m s = s @ replicate (Suc n) CHR ''_''"
      using True n by (subst scriptBodyPart_loop.simps) (simp only: eq if_True)
    moreover have "\<forall>k<Suc n. hasKey m (s @ replicate k CHR ''_'')"
    proof (intro allI impI)
      fix k assume "k < Suc n"
      show "hasKey m (s @ replicate k CHR ''_'')"
      proof (cases k)
        case 0 then show ?thesis using True by simp
      next
        case (Suc j)
        then have "j < n" using \<open>k < Suc n\<close> by simp
        then show ?thesis using coll eq Suc by metis
      qed
    qed
    ultimately show ?thesis by blast
  qed
qed

lemma scriptBodyPart_loop_not_metadata: "scriptBodyPart_loop m ''script'' \<noteq> ''metadata''"
proof -
  obtain n where "scriptBodyPart_loop m ''script'' = ''script'' @ replicate n CHR ''_''"
    using scriptBodyPart_loop_markers [of m "''script''"] by blast
  then show ?thesis by simp
qed

text \<open>C3. For every binding map the loop that chooses the name of the script part ends (the
  function is total), the name it returns is the key of no binding, and it is the literal
  "script" followed by one underscore for each collision: every shorter candidate is a
  key of the map.\<close>

theorem scriptBodyPart_unique:
  "\<exists>n. scriptBodyPart_loop m ''script'' = ''script'' @ replicate n CHR ''_''
       \<and> (\<forall>k<n. hasKey m (''script'' @ replicate k CHR ''_''))
       \<and> \<not> hasKey m (scriptBodyPart_loop m ''script'')
       \<and> scriptBodyPart_loop m ''script'' \<notin> fst ` set m"
proof -
  obtain n where n: "scriptBodyPart_loop m ''script'' = ''script'' @ replicate n CHR ''_''"
    and coll: "\<forall>k<n. hasKey m (''script'' @ replicate k CHR ''_'')"
    using scriptBodyPart_loop_markers [of m "''script''"] by blast
  have free: "\<not> hasKey m (scriptBodyPart_loop m ''script'')"
    by (rule scriptBodyPart_loop_not_hasKey)
  then have "scriptBodyPart_loop m ''script'' \<notin> fst ` set m"
    by (simp only: hasKey_iff not_False_eq_True)
  with n coll free show ?thesis by blast
qed

theorem scriptBodyPart_unique_witness:
  "scriptBodyPart_loop [(''script_'', ()), (''b1'', ()), (''script'', ())] ''script'' = ''script__''
   \<and> (\<exists>n. scriptBodyPart_loop [(''script_'', ()), (''b1'', ()), (''script'', ())] ''script''
              = ''script'' @ replicate n CHR ''_''
          \<and> (\<forall>k<n. hasKey [(''script_'', ()), (''b1'', ()), (''script'', ())]
                         (''script'' @ replicate k CHR ''_''))
          \<and> \<not> hasKey [(''script_'', ()), (''b1'', ()), (''script'', ())] ''script__'')"
proof -
  have v: "scriptBodyPart_loop [(''script_'', ()), (''b1'', ()), (''script'', ())] ''script'' = ''script__''"
    by (simp add: scriptBodyPart_loop.simps hasKey_def)
  show ?thesis
    using scriptBodyPart_unique [of "[(''script_'', ()), (''b1'', ()), (''script'', ())]"]
    unfolding v by blast
qed

subsection \<open>The loops of formatMultipartBody\<close>

lemma serialize_loop_acc:
  "serialize_loop bs ms ws = Inr (ms', ws') \<Longrightarrow>
   \<exists>fs us. ms' = ms @ fs \<and> ws' = ws @ us \<and> length fs = length bs \<and> length us = length bs
     \<and> (\<forall>i<length bs. snd (bs ! i) (fst (bs ! i)) = Inr (fs ! i, us ! i))"
proof (induction bs arbitrary: ms ws)
  case Nil
  then show ?case by simp
next
  case (Cons x bs)
  obtain name b where x: "x = (name, b)" by (cases x)
  from Cons.prems x obtain f u where bu: "b name = Inr (f, u)"
    and rest: "serialize_loop bs (ms @ [f]) (ws @ [u]) = Inr (ms', ws')"
    by (auto split: sum.splits)
  from Cons.IH [OF rest] obtain fs us where
    ms': "ms' = (ms @ [f]) @ fs" and ws': "ws' = (ws @ [u]) @ us"
    and len: "length fs = length bs" "length us = length bs"
    and idx: "\<forall>i<length bs. snd (bs ! i) (fst (bs ! i)) = Inr (fs ! i, us ! i)"
    by blast
  have "\<forall>i<length (x # bs). snd ((x # bs) ! i) (fst ((x # bs) ! i)) = Inr ((f # fs) ! i, (u # us) ! i)"
  proof (intro allI impI)
    fix i assume "i < length (x # bs)"
    then show "snd ((x # bs) ! i) (fst ((x # bs) ! i)) = Inr ((f # fs) ! i, (u # us) ! i)"
      using idx bu x by (cases i) simp_all
  qed
  moreover have "ms' = ms @ (f # fs)" "ws' = ws @ (u # us)"
    using ms' ws' by simp_all
  moreover have "length (f # fs) = length (x # bs)" "length (u # us) = length (x # bs)"
    using len by simp_all
  ultimately show ?case by blast
qed

lemma serialize_loop_inherit:
  "serialize_loop (inherit_bindings (go_json U) nbs) ms ws =
     Inr (ms @ map inherit_fragment nbs, ws @ replicate (length nbs) None)"
proof (induction nbs arbitrary: ms ws)
  case Nil
  then show ?case by (simp add: inherit_bindings_def)
next
  case (Cons nb nbs)
  obtain name b where nb: "nb = (name, b)" by (cases nb)
  have step: "WorkerInheritBinding_serialize (go_json U) b name = Inr (inherit_fragment nb, None)"
    by (simp add: WorkerInheritBinding_serialize_def go_json_def go_Marshal_meta_def
        inherit_fragment_def nb)
  have "serialize_loop (inherit_bindings (go_json U) (nb # nbs)) ms ws =
        serialize_loop (inherit_bindings (go_json U) nbs) (ms @ [inherit_fragment nb]) (ws @ [None])"
    by (simp add: inherit_bindings_def nb step)
  also have "\<dots> = Inr ((ms @ [inherit_fragment nb]) @ map inherit_fragment nbs,
                       (ws @ [None]) @ replicate (length nbs) None)"
    using Cons.IH [of "ms @ [inherit_fragment nb]" "ws @ [None]"] by (simp only:)
  finally show ?case by (simp add: replicate_app_Cons_same)
qed

lemma bodyWriters_loop_nil: "bodyWriters_loop (replicate n None) w = Inr w"
  by (induction n) simp_all

lemma hasKey_inherit_bindings:
  "hasKey (inherit_bindings J nbs :: (string \<times> 'w WorkerBinding) list) k = hasKey nbs k"
proof -
  have "fst ` set (inherit_bindings J nbs :: (string \<times> 'w WorkerBinding) list) = fst ` set nbs"
    by (force simp: inherit_bindings_def)
  then show ?thesis
    by (simp add: hasKey_iff)
qed

lemma scriptBodyPart_loop_inherit:
  "scriptBodyPart_loop (inherit_bindings J nbs :: (string \<times> 'w WorkerBinding) list) s =
   scriptBodyPart_loop nbs s"
proof (induction nbs s rule: scriptBodyPart_loop.induct)
  case (1 m s)
  let ?bs = "inherit_bindings J m :: (string \<times> 'w WorkerBinding) list"
  show ?case
  proof (cases "hasKey m s")
    case True
    then have "scriptBodyPart_loop ?bs s = scriptBodyPart_loop ?bs (s @ ''_'')"
      by (subst scriptBodyPart_loop.simps) (simp add: hasKey_inherit_bindings)
    also have "\<dots> = scriptBodyPart_loop m (s @ ''_'')"
      using 1 True by simp
    also have "\<dots> = scriptBodyPart_loop m s"
      using True by (subst (2) scriptBodyPart_loop.simps) simp
    finally show ?thesis .
  next
    case False
    then show ?thesis
      by (subst scriptBodyPart_loop.simps, subst (2) scriptBodyPart_loop.simps)
         (simp add: hasKey_inherit_bindings)
  qed
qed

subsection \<open>The body built on the Go library\<close>

lemma formatMultipartBody_go:
  "formatMultipartBody J (go_multipart b) params =
     (case serialize_loop (WorkerScriptParams.Bindings params) [] [] of
        Inl err \<Rightarrow> Returns (Inl err)
      | Inr (frags, writers) \<Rightarrow>
          (case Marshal_metadata J \<lparr> BodyPart = scriptBodyPart_loop (WorkerScriptParams.Bindings params) ''script'',
                                      metadata.Bindings = frags \<rparr> of
             Inl err \<Rightarrow> Returns (Inl err)
           | Inr metaJson \<Rightarrow>
               (case bodyWriters_loop writers
                       \<lparr> buf = mime_part b True metadata_header metaJson
                               @ mime_part b False
                                   (script_header (scriptBodyPart_loop (WorkerScriptParams.Bindings params) ''script''))
                                   (WorkerScriptParams.Script params),
                         lastpart = Some 1, nparts = 2 \<rparr> of
                  Inl err \<Rightarrow> Returns (Inl err)
                | Inr w \<Rightarrow> Returns (Inr (go_FormDataContentType b, buf w @ mime_end b)))))"
proof -
  note defs = formatMultipartBody_def Let_def go_multipart_def go_CreatePart_def go_Write_def
    go_Close_def mime_part_def mime_end_def numeral_2_eq_2
  show ?thesis
  proof (cases "serialize_loop (WorkerScriptParams.Bindings params) [] []")
    case (Inl err)
    then show ?thesis by (simp add: defs)
  next
    case (Inr p)
    obtain frags writers where p: "p = (frags, writers)" by (cases p)
    let ?name = "scriptBodyPart_loop (WorkerScriptParams.Bindings params) ''script''"
    show ?thesis
    proof (cases "Marshal_metadata J \<lparr> BodyPart = ?name, metadata.Bindings = frags \<rparr>")
      case (Inl err)
      then show ?thesis using Inr p by (simp add: defs)
    next
      case mj: (Inr metaJson)
      show ?thesis
      proof (cases "bodyWriters_loop writers
                       \<lparr> buf = mime_part b True metadata_header metaJson
                               @ mime_part b False (script_header ?name) (WorkerScriptParams.Script params),
                         lastpart = Some 1, nparts = 2 \<rparr>")
        case (Inl err)
        then show ?thesis using Inr p mj by (simp add: defs)
      next
        case bw: (Inr w)
        then show ?thesis using Inr p mj by (simp add: defs)
      qed
    qed
  qed
qed


lemma formatMultipartBody_inherit:
  "formatMultipartBody (go_json U) (go_multipart b)
     \<lparr> WorkerScriptParams.Script = s, Bindings = inherit_bindings (go_json U) nbs \<rparr> =
   Returns (Inr (go_FormDataContentType b,
                 mime_part b True metadata_header (inherit_metadata nbs)
                 @ mime_part b False (script_header (scriptBodyPart_loop nbs ''script'')) s
                 @ mime_end b))"
proof -
  have sl: "serialize_loop (inherit_bindings (go_json U) nbs :: (string \<times> Writer WorkerBinding) list) [] []
            = Inr (map inherit_fragment nbs, replicate (length nbs) None)"
    using serialize_loop_inherit [of U nbs "[]" "[]"] by simp
  have mm: "Marshal_metadata (go_json U)
              \<lparr> BodyPart = scriptBodyPart_loop nbs ''script'',
                metadata.Bindings = map inherit_fragment nbs \<rparr> = Inr (inherit_metadata nbs)"
    by (simp add: go_json_def go_Marshal_metadata_def inherit_metadata_def)
  show ?thesis
    by (simp add: formatMultipartBody_go sl scriptBodyPart_loop_inherit mm bodyWriters_loop_nil)
qed

lemma bodyWriters_loop_supplied: "bodyWriters_loop ws w = invoke_each (supplied ws) w"
  by (induction ws w rule: bodyWriters_loop.induct) (auto split: prod.splits option.splits)

lemma canonical_keys:
  "CanonicalMIMEHeaderKey ''content-type'' = ''Content-Type''"
  "CanonicalMIMEHeaderKey ''content-disposition'' = ''Content-Disposition''"
  by code_simp+

lemma keys_sorted: "\<not> ''Content-Type'' < ''Content-Disposition''"
  by code_simp

lemma metadata_header_lines:
  \<open>header_lines metadata_header =
     ''Content-Disposition: form-data; name="metadata"'' @ CRLF @ ''Content-Type: application/json'' @ CRLF\<close>
  using keys_sorted
  by (simp add: header_lines_def metadata_header_def MIMEHeader_Set_def canonical_keys)

lemma script_header_lines:
  \<open>header_lines (script_header name) =
     ''Content-Disposition: form-data; name="'' @ name @ ''"'' @ CRLF
     @ ''Content-Type: application/javascript'' @ CRLF\<close>
  using keys_sorted
  by (simp add: header_lines_def script_header_def MIMEHeader_Set_def canonical_keys)

lemma script_header_neq: "script_header name \<noteq> metadata_header"
  by (simp add: script_header_def metadata_header_def MIMEHeader_Set_def)

subsection \<open>The scenario of the upload test\<close>

lemma inherit_metadata_b1_b2:
  \<open>inherit_metadata b1_b2 =
     ''{"body_part":"script","bindings":[{"name":"b1","type":"inherit"},{"name":"b2","type":"inherit","old_name":"old_binding_name"}]}''\<close>
  by code_simp

lemma inherit_metadata_b2_b1:
  \<open>inherit_metadata b2_b1 =
     ''{"body_part":"script","bindings":[{"name":"b2","type":"inherit","old_name":"old_binding_name"},{"name":"b1","type":"inherit"}]}''\<close>
  by code_simp

lemma scriptBodyPart_b1_b2: "scriptBodyPart_loop b1_b2 ''script'' = ''script''"
  "scriptBodyPart_loop b2_b1 ''script'' = ''script''"
  by code_simp+

subsection \<open>The parts of the body\<close>

text \<open>C2. The body that formatMultipartBody returns on the Go library. First conjunct, for
  any bindings and any behaviour of json.Marshal: when a body is returned, there is one
  metadata fragment and one writer slot for every binding, fragment and slot number i
  being what binding number i serialized to; the body begins with exactly one part under
  the metadata header, whose content is the marshalled struct {script part name,
  fragments}, followed by exactly one part under the script header, whose content is the
  script; then every supplied writer has been invoked once, in order, on that writer
  state, and the closing delimiter ends the body. When no binding supplied a writer the
  body is those two parts and the closing delimiter. Second conjunct: for a map of
  inherit bindings, the only binding kind of the package, with Go's json.Marshal, a body
  is always returned and it is exactly these two parts. Last conjuncts: the metadata
  header names the part "metadata", the script header names it by the script part
  name, and the script part name is never "metadata", so that one part only is named
  "metadata".\<close>

theorem formatMultipartBody_parts:
  \<open>(formatMultipartBody J (go_multipart b) \<lparr> WorkerScriptParams.Script = s, Bindings = bs \<rparr>
      = Returns (Inr (contentType, body)) \<longrightarrow>
      (\<exists>frags writers metaJson w.
         length frags = length bs \<and> length writers = length bs \<and>
         (\<forall>i<length bs. snd (bs ! i) (fst (bs ! i)) = Inr (frags ! i, writers ! i)) \<and>
         Marshal_metadata J \<lparr> BodyPart = scriptBodyPart_loop bs ''script'',
                                metadata.Bindings = frags \<rparr> = Inr metaJson \<and>
         invoke_each (supplied writers)
            \<lparr> buf = mime_part b True metadata_header metaJson
                    @ mime_part b False (script_header (scriptBodyPart_loop bs ''script'')) s,
              lastpart = Some 1, nparts = 2 \<rparr> = Inr w \<and>
         body = buf w @ mime_end b \<and>
         (supplied writers = [] \<longrightarrow>
            body = mime_part b True metadata_header metaJson
                   @ mime_part b False (script_header (scriptBodyPart_loop bs ''script'')) s
                   @ mime_end b)))
   \<and> formatMultipartBody (go_json U) (go_multipart b)
        \<lparr> WorkerScriptParams.Script = s, Bindings = inherit_bindings (go_json U) nbs \<rparr>
      = Returns (Inr (go_FormDataContentType b,
                      mime_part b True metadata_header (inherit_metadata nbs)
                      @ mime_part b False (script_header (scriptBodyPart_loop nbs ''script'')) s
                      @ mime_end b))
   \<and> header_lines metadata_header =
        ''Content-Disposition: form-data; name="metadata"'' @ CRLF
        @ ''Content-Type: application/json'' @ CRLF
   \<and> header_lines (script_header name) =
        ''Content-Disposition: form-data; name="'' @ name @ ''"'' @ CRLF
        @ ''Content-Type: application/javascript'' @ CRLF
   \<and> scriptBodyPart_loop bs ''script'' \<noteq> ''metadata''\<close>
proof (intro conjI impI)
  assume ret: "formatMultipartBody J (go_multipart b) \<lparr> WorkerScriptParams.Script = s, Bindings = bs \<rparr>
      = Returns (Inr (contentType, body))"
  let ?name = "scriptBodyPart_loop bs ''script''"
  obtain frags writers where sl: "serialize_loop bs [] [] = Inr (frags, writers)"
    using ret by (cases "serialize_loop bs [] []") (auto simp: formatMultipartBody_go)
  obtain metaJson where mj: "Marshal_metadata J \<lparr> BodyPart = ?name, metadata.Bindings = frags \<rparr> = Inr metaJson"
    using ret sl
    by (cases "Marshal_metadata J \<lparr> BodyPart = ?name, metadata.Bindings = frags \<rparr>")
       (auto simp: formatMultipartBody_go)
  let ?w0 = "\<lparr> buf = mime_part b True metadata_header metaJson @ mime_part b False (script_header ?name) s,
               lastpart = Some 1, nparts = 2 \<rparr>"
  obtain w where bw: "bodyWriters_loop writers ?w0 = Inr w"
    using ret sl mj by (cases "bodyWriters_loop writers ?w0") (auto simp: formatMultipartBody_go)
  have body: "body = buf w @ mime_end b"
    using ret sl mj bw by (simp add: formatMultipartBody_go)
  from serialize_loop_acc [OF sl] have len: "length frags = length bs" "length writers = length bs"
    and idx: "\<forall>i<length bs. snd (bs ! i) (fst (bs ! i)) = Inr (frags ! i, writers ! i)"
    by auto
  have inv: "invoke_each (supplied writers) ?w0 = Inr w"
    using bw by (simp add: bodyWriters_loop_supplied)
  have none: "supplied writers = [] \<longrightarrow>
      body = mime_part b True metadata_header metaJson @ mime_part b False (script_header ?name) s @ mime_end b"
    using inv body by auto
  show "\<exists>frags writers metaJson w.
         length frags = length bs \<and> length writers = length bs \<and>
         (\<forall>i<length bs. snd (bs ! i) (fst (bs ! i)) = Inr (frags ! i, writers ! i)) \<and>
         Marshal_metadata J \<lparr> BodyPart = ?name, metadata.Bindings = frags \<rparr> = Inr metaJson \<and>
         invoke_each (supplied writers)
            \<lparr> buf = mime_part b True metadata_header metaJson @ mime_part b False (script_header ?name) s,
              lastpart = Some 1, nparts = 2 \<rparr> = Inr w \<and>
         body = buf w @ mime_end b \<and>
         (supplied writers = [] \<longrightarrow>
            body = mime_part b True metadata_header metaJson @ mime_part b False (script_header ?name) s
                   @ mime_end b)"
    using len idx mj inv body none by blast
next
  show "formatMultipartBody (go_json U) (go_multipart b)
        \<lparr> WorkerScriptParams.Script = s, Bindings = inherit_bindings (go_json U) nbs \<rparr>
      = Returns (Inr (go_FormDataContentType b,
                      mime_part b True metadata_header (inherit_metadata nbs)
                      @ mime_part b False (script_header (scriptBodyPart_loop nbs ''script'')) s
                      @ mime_end b))"
    by (rule formatMultipartBody_inherit)
next
  show \<open>header_lines metadata_header =
        ''Content-Disposition: form-data; name="metadata"'' @ CRLF
        @ ''Content-Type: application/json'' @ CRLF\<close>
    by (rule metadata_header_lines)
next
  show \<open>header_lines (script_header name) =
        ''Content-Disposition: form-data; name="'' @ name @ ''"'' @ CRLF
        @ ''Content-Type: application/javascript'' @ CRLF\<close>
    by (rule script_header_lines)
next
  show "scriptBodyPart_loop bs ''script'' \<noteq> ''metadata''"
    by (rule scriptBodyPart_loop_not_metadata)
qed

theorem formatMultipartBody_parts_witness:
  "formatMultipartBody (go_json no_decode) (go_multipart ''B'')
     \<lparr> WorkerScriptParams.Script = ''S'', Bindings = inherit_bindings (go_json no_decode) b1_b2 \<rparr>
   = Returns (Inr (go_FormDataContentType ''B'',
                   mime_part ''B'' True metadata_header (inherit_metadata b1_b2)
                   @ mime_part ''B'' False (script_header ''script'') ''S'' @ mime_end ''B''))
   \<and> (\<exists>frags writers metaJson w.
         length frags = 2 \<and> length writers = 2 \<and>
         Marshal_metadata (go_json no_decode) \<lparr> BodyPart = ''script'', metadata.Bindings = frags \<rparr>
           = Inr metaJson \<and>
         invoke_each (supplied writers)
            \<lparr> buf = mime_part ''B'' True metadata_header metaJson
                    @ mime_part ''B'' False (script_header ''script'') ''S'',
              lastpart = Some 1, nparts = 2 \<rparr> = Inr w \<and>
         mime_part ''B'' True metadata_header (inherit_metadata b1_b2)
           @ mime_part ''B'' False (script_header ''script'') ''S'' @ mime_end ''B''
         = buf w @ mime_end ''B'')"
proof -
  let ?bs = "inherit_bindings (go_json no_decode) b1_b2 :: (string \<times> Writer WorkerBinding) list"
  let ?body = "mime_part ''B'' True metadata_header (inherit_metadata b1_b2)
                 @ mime_part ''B'' False (script_header ''script'') ''S'' @ mime_end ''B''"
  have ret: "formatMultipartBody (go_json no_decode) (go_multipart ''B'')
               \<lparr> WorkerScriptParams.Script = ''S'', Bindings = ?bs \<rparr>
             = Returns (Inr (go_FormDataContentType ''B'', ?body))"
    using formatMultipartBody_inherit [of no_decode "''B''" "''S''" b1_b2]
    by (simp add: scriptBodyPart_b1_b2)
  have name: "scriptBodyPart_loop ?bs ''script'' = ''script''"
    by (simp add: scriptBodyPart_loop_inherit scriptBodyPart_b1_b2)
  have len: "length ?bs = 2"
    by (simp add: inherit_bindings_def b1_b2_def)
  from formatMultipartBody_parts [where J = "go_json no_decode" and b = "''B''" and s = "''S''"
      and bs = ?bs and contentType = "go_FormDataContentType ''B''" and body = ?body] ret
  obtain frags writers metaJson w where
    "length frags = length ?bs" "length writers = length ?bs"
    "Marshal_metadata (go_json no_decode)
       \<lparr> BodyPart = scriptBodyPart_loop ?bs ''script'', metadata.Bindings = frags \<rparr> = Inr metaJson"
    "invoke_each (supplied writers)
            \<lparr> buf = mime_part ''B'' True metadata_header metaJson
                    @ mime_part ''B'' False (script_header (scriptBodyPart_loop ?bs ''script'')) ''S'',
              lastpart = Some 1, nparts = 2 \<rparr> = Inr w"
    "?body = buf w @ mime_end ''B''"
    by blast
  then have "\<exists>frags writers metaJson w.
         length frags = 2 \<and> length writers = 2 \<and>
         Marshal_metadata (go_json no_decode) \<lparr> BodyPart = ''script'', metadata.Bindings = frags \<rparr>
           = Inr metaJson \<and>
         invoke_each (supplied writers)
            \<lparr> buf = mime_part ''B'' True metadata_header metaJson
                    @ mime_part ''B'' False (script_header ''script'') ''S'',
              lastpart = Some 1, nparts = 2 \<rparr> = Inr w \<and>
         ?body = buf w @ mime_end ''B''"
    unfolding name len by blast
  with ret show ?thesis by (rule conjI)
qed

subsection \<open>The order of the bindings\<close>

text \<open>The run that visits b1 before b2 sends the metadata that the upload test expects.
  For any bindings, fragment number i and writer slot number i come from the binding
  visited as number i, and the writers are invoked in slot order.\<close>

lemma fragments_follow_visits:
  \<open>formatMultipartBody (go_json U) (go_multipart b)
     \<lparr> WorkerScriptParams.Script = s, Bindings = inherit_bindings (go_json U) b1_b2 \<rparr>
   = Returns (Inr (go_FormDataContentType b,
        mime_part b True metadata_header
          ''{"body_part":"script","bindings":[{"name":"b1","type":"inherit"},{"name":"b2","type":"inherit","old_name":"old_binding_name"}]}''
        @ mime_part b False (script_header ''script'') s @ mime_end b))
   \<and> (serialize_loop bs [] [] = Inr (frags, writers) \<longrightarrow>
        length frags = length bs \<and> length writers = length bs \<and>
        (\<forall>i<length bs. snd (bs ! i) (fst (bs ! i)) = Inr (frags ! i, writers ! i)) \<and>
        bodyWriters_loop writers w = invoke_each (supplied writers) w)\<close>
proof (intro conjI impI)
  show \<open>formatMultipartBody (go_json U) (go_multipart b)
     \<lparr> WorkerScriptParams.Script = s, Bindings = inherit_bindings (go_json U) b1_b2 \<rparr>
   = Returns (Inr (go_FormDataContentType b,
        mime_part b True metadata_header
          ''{"body_part":"script","bindings":[{"name":"b1","type":"inherit"},{"name":"b2","type":"inherit","old_name":"old_binding_name"}]}''
        @ mime_part b False (script_header ''script'') s @ mime_end b))\<close>
    using formatMultipartBody_inherit [of U b s b1_b2]
    by (simp only: scriptBodyPart_b1_b2 inherit_metadata_b1_b2)
next
  assume sl: "serialize_loop bs [] [] = Inr (frags, writers)"
  from serialize_loop_acc [OF sl]
  show "length frags = length bs" "length writers = length bs"
    "\<forall>i<length bs. snd (bs ! i) (fst (bs ! i)) = Inr (frags ! i, writers ! i)"
    by auto
  show "bodyWriters_loop writers w = invoke_each (supplied writers) w"
    by (rule bodyWriters_loop_supplied)
qed

text \<open>C7. The claim, and the assertion of \<open>TestWorkers_UploadWorkerWithInheritBinding\<close>,
  is that an upload with the bindings b1 (inherit, empty old name) and b2 (inherit, old
  name \<open>old_binding_name\<close>) sends a metadata part whose bindings list is in insertion
  order, the fragment of b1 before that of b2. The code at the failing input: the map
  built by inserting b1 and then b2 is the same Go map as the one listed b2 first; on the
  run whose \<open>range\<close> visits b2 first, formatMultipartBody returns a body whose metadata
  part lists the fragment of b2, with the old name, before the fragment of b1, which is
  not the metadata in insertion order.\<close>

theorem metadata_order_b2_visited_first:
  \<open>map_of b2_b1 = map_of b1_b2
   \<and> distinct (map fst b2_b1)
   \<and> formatMultipartBody (go_json no_decode) (go_multipart ''B'')
       \<lparr> WorkerScriptParams.Script = ''S'', Bindings = inherit_bindings (go_json no_decode) b2_b1 \<rparr>
     = Returns (Inr (''multipart/form-data; boundary=B'',
        mime_part ''B'' True metadata_header
          ''{"body_part":"script","bindings":[{"name":"b2","type":"inherit","old_name":"old_binding_name"},{"name":"b1","type":"inherit"}]}''
        @ mime_part ''B'' False (script_header ''script'') ''S'' @ mime_end ''B''))
   \<and> ''{"body_part":"script","bindings":[{"name":"b2","type":"inherit","old_name":"old_binding_name"},{"name":"b1","type":"inherit"}]}''
     \<noteq> ''{"body_part":"script","bindings":[{"name":"b1","type":"inherit"},{"name":"b2","type":"inherit","old_name":"old_binding_name"}]}''\<close>
proof (intro conjI)
  show "map_of b2_b1 = map_of b1_b2"
    by (rule ext) (simp add: b1_b2_def b2_b1_def)
  show "distinct (map fst b2_b1)"
    by (simp add: b2_b1_def)
  have ct: "go_FormDataContentType ''B'' = ''multipart/form-data; boundary=B''"
    by code_simp
  show \<open>formatMultipartBody (go_json no_decode) (go_multipart ''B'')
       \<lparr> WorkerScriptParams.Script = ''S'', Bindings = inherit_bindings (go_json no_decode) b2_b1 \<rparr>
     = Returns (Inr (''multipart/form-data; boundary=B'',
        mime_part ''B'' True metadata_header
          ''{"body_part":"script","bindings":[{"name":"b2","type":"inherit","old_name":"old_binding_name"},{"name":"b1","type":"inherit"}]}''
        @ mime_part ''B'' False (script_header ''script'') ''S'' @ mime_end ''B''))\<close>
    using formatMultipartBody_inherit [of no_decode "''B''" "''S''" b2_b1]
    by (simp only: scriptBodyPart_b1_b2 inherit_metadata_b2_b1 ct)
  show \<open>''{"body_part":"script","bindings":[{"name":"b2","type":"inherit","old_name":"old_binding_name"},{"name":"b1","type":"inherit"}]}''
     \<noteq> ''{"body_part":"script","bindings":[{"name":"b1","type":"inherit"},{"name":"b2","type":"inherit","old_name":"old_binding_name"}]}''\<close>
    by simp
qed

subsection \<open>The error of the second CreatePart\<close>

lemma formatMultipartBody_CreatePart_error:
  "formatMultipartBody J (with_CreatePart_error e M) params = formatMultipartBody J M params"
proof -
  let ?M = "with_CreatePart_error e M"
  have nw: "NewWriter ?M = NewWriter M" and wr: "Write ?M = Write M" and cl: "Close ?M = Close M"
    and ct: "FormDataContentType ?M = FormDataContentType M" and bt: "Bytes ?M = Bytes M"
    by (simp_all add: with_CreatePart_error_def)
  have cp1: "CreatePart ?M metadata_header = CreatePart M metadata_header"
    by (simp add: with_CreatePart_error_def)
  have cp2: "\<And>name w. CreatePart ?M (script_header name) w =
      (case CreatePart M (script_header name) w of ((pw, _), w') \<Rightarrow> ((pw, e), w'))"
    by (simp add: with_CreatePart_error_def script_header_neq)
  have step: "\<And>name w (k :: 'b option \<Rightarrow> 'a \<Rightarrow> 'c).
      (case CreatePart ?M (script_header name) w of ((pw, err), w') \<Rightarrow> k pw w') =
      (case CreatePart M (script_header name) w of ((pw, err), w') \<Rightarrow> k pw w')"
    by (simp add: cp2 split: prod.splits)
  show ?thesis
    unfolding formatMultipartBody_def nw wr cl ct bt cp1 step ..
qed

lemma formatMultipartBody_nil_part:
  assumes "serialize_loop (WorkerScriptParams.Bindings params) [] [] = Inr (frags, writers)"
    and "CreatePart M metadata_header (NewWriter M) = ((Some p, None), w1)"
    and "Marshal_metadata J
           \<lparr> BodyPart = scriptBodyPart_loop (WorkerScriptParams.Bindings params) ''script'',
             metadata.Bindings = frags \<rparr> = Inr metaJson"
    and "Write M p metaJson w1 = (None, w2)"
    and "CreatePart M (script_header (scriptBodyPart_loop (WorkerScriptParams.Bindings params) ''script'')) w2
           = ((None, err), w3)"
  shows "formatMultipartBody J M params = Panics"
  using assms by (simp add: formatMultipartBody_def Let_def)

text \<open>C9. In formatMultipartBody the error that CreatePart returns for the script part is
  never read: replacing it by any other error, or by nil, leaves the result of the
  function as it is, so that error cannot be what the call returns because of the
  CreatePart step. When CreatePart fails as mime/multipart does, with a nil writer, the
  Write that follows panics and the call returns nothing.\<close>

theorem script_part_CreatePart_error_discarded:
  "formatMultipartBody J (with_CreatePart_error e M) params = formatMultipartBody J M params
   \<and> (serialize_loop (WorkerScriptParams.Bindings params) [] [] = Inr (frags, writers) \<longrightarrow>
      CreatePart M metadata_header (NewWriter M) = ((Some p, None), w1) \<longrightarrow>
      Marshal_metadata J
           \<lparr> BodyPart = scriptBodyPart_loop (WorkerScriptParams.Bindings params) ''script'',
             metadata.Bindings = frags \<rparr> = Inr metaJson \<longrightarrow>
      Write M p metaJson w1 = (None, w2) \<longrightarrow>
      CreatePart M (script_header (scriptBodyPart_loop (WorkerScriptParams.Bindings params) ''script'')) w2
           = ((None, err), w3) \<longrightarrow>
      formatMultipartBody J M params = Panics)"
  using formatMultipartBody_CreatePart_error [of J e M params]
    formatMultipartBody_nil_part [of params frags writers M p w1 J metaJson w2 err w3]
  by blast

theorem script_part_CreatePart_error_discarded_witness:
  "formatMultipartBody (go_json no_decode) failing_second_part
      \<lparr> WorkerScriptParams.Script = ''S'', Bindings = [] \<rparr> = Panics
   \<and> formatMultipartBody (go_json no_decode) (with_CreatePart_error (Some (ErrorNew ''short write'')) (go_multipart ''B''))
      \<lparr> WorkerScriptParams.Script = ''S'', Bindings = [] \<rparr>
     = formatMultipartBody (go_json no_decode) (go_multipart ''B'')
      \<lparr> WorkerScriptParams.Script = ''S'', Bindings = [] \<rparr>"
proof -
  let ?params = "\<lparr> WorkerScriptParams.Script = ''S'', Bindings = [] \<rparr> :: Writer WorkerScriptParams"
  let ?w1 = "\<lparr> buf = ''--'' @ ''B'' @ CRLF @ header_lines metadata_header @ CRLF,
                lastpart = Some 0, nparts = Suc 0 \<rparr>"
  let ?mj = \<open>''{"body_part":'' @ json_string (scriptBodyPart_loop ([] :: (string \<times> Writer WorkerBinding) list) ''script'')
               @ '',"bindings":['' @ comma_join [] @ '']}''\<close>
  have h1: "serialize_loop (WorkerScriptParams.Bindings ?params) [] [] = Inr ([], [])"
    by simp
  have h2: "CreatePart failing_second_part metadata_header (NewWriter failing_second_part)
              = ((Some 0, None), ?w1)"
    by (simp add: failing_second_part_def go_multipart_def go_CreatePart_def)
  have h3: "Marshal_metadata (go_json no_decode)
           \<lparr> BodyPart = scriptBodyPart_loop (WorkerScriptParams.Bindings ?params) ''script'',
             metadata.Bindings = [] \<rparr> = Inr ?mj"
    by (simp add: go_json_def go_Marshal_metadata_def)
  have h4: "Write failing_second_part 0 ?mj ?w1 = (None, ?w1\<lparr> buf := buf ?w1 @ ?mj \<rparr>)"
    by (simp add: failing_second_part_def go_multipart_def go_Write_def)
  have h5: "CreatePart failing_second_part
              (script_header (scriptBodyPart_loop (WorkerScriptParams.Bindings ?params) ''script''))
              (?w1\<lparr> buf := buf ?w1 @ ?mj \<rparr>)
            = ((None, Some (ErrorNew ''short write'')), ?w1\<lparr> buf := buf ?w1 @ ?mj \<rparr>)"
    by (simp add: failing_second_part_def)
  note t = script_part_CreatePart_error_discarded
    [where J = "go_json no_decode" and M = failing_second_part and params = ?params]
  have "formatMultipartBody (go_json no_decode) failing_second_part ?params = Panics"
    using t [THEN conjunct2, rule_format, OF h1 h2 h3 h4 h5] .
  moreover have "formatMultipartBody (go_json no_decode)
      (with_CreatePart_error (Some (ErrorNew ''short write'')) (go_multipart ''B'')) ?params
     = formatMultipartBody (go_json no_decode) (go_multipart ''B'') ?params"
    using script_part_CreatePart_error_discarded
      [where J = "go_json no_decode" and M = "go_multipart ''B''" and params = ?params
        and e = "Some (ErrorNew ''short write'')", THEN conjunct1] .
  ultimately show ?thesis by (rule conjI)
qed

subsection \<open>Routing of the script operations\<close>

lemma UploadWorkerWithBindings_inherit:
  "UploadWorkerWithBindings (go_json U) (go_multipart b) api rp
     \<lparr> WorkerScriptParams.Script = s, Bindings = inherit_bindings (go_json U) nbs \<rparr> =
   Returns
     (let contentType = go_FormDataContentType b;
          body = mime_part b True metadata_header (inherit_metadata nbs)
                 @ mime_part b False (script_header (scriptBodyPart_loop nbs ''script'')) s
                 @ mime_end b
      in if ScriptName rp \<noteq> '''' then multiScriptUpload (go_json U) api (ScriptName rp) contentType body
         else singleScriptUpload (go_json U) api (ZoneID rp) contentType body)"
  by (simp add: UploadWorkerWithBindings_def formatMultipartBody_inherit Let_def)

lemma UploadWorkerWithBindings_no_org:
  assumes "OrganizationID api = ''''" and "ScriptName rp \<noteq> ''''"
    and "UploadWorkerWithBindings J M api rp sp = Returns (calls, r)"
  shows "calls = [] \<and> (\<exists>err. r = Inl err)"
  using assms
  by (auto simp: UploadWorkerWithBindings_def multiScriptUpload_def
      split: result.splits sum.splits prod.splits)

text \<open>C4. On a client without organization ID every operation of the multi-script family
  (delete, download and upload with a script name, with or without bindings; the list of
  scripts; creating or updating a route that names a script) returns the error
  "organization ID required for enterprise only request" and calls neither request method.
  For an upload with bindings this is stated for inherit bindings on the Go library, where
  building the body cannot fail; for any bindings and libraries, a call that returns has made
  no request and returns an error.\<close>

theorem organization_required:
  "OrganizationID api = '''' \<longrightarrow>
     (ScriptName rp \<noteq> '''' \<longrightarrow>
        DeleteWorker J api rp = ([], Inl errOrganizationIDRequired)
      \<and> DownloadWorker api rp = ([], Inl errOrganizationIDRequired)
      \<and> UploadWorker J api rp data = ([], Inl errOrganizationIDRequired)
      \<and> UploadWorkerWithBindings (go_json U) (go_multipart b) api rp
           \<lparr> WorkerScriptParams.Script = s, Bindings = inherit_bindings (go_json U) nbs \<rparr>
          = Returns ([], Inl errOrganizationIDRequired)
      \<and> (UploadWorkerWithBindings J M api rp sp = Returns (calls, r) \<longrightarrow>
            calls = [] \<and> (\<exists>err. r = Inl err)))
   \<and> ListWorkerScripts J api = ([], Inl errOrganizationIDRequired)
   \<and> (WorkerRoute.Script route \<noteq> '''' \<longrightarrow>
        CreateWorkerRoute J api zoneID route = ([], Inl errOrganizationIDRequired)
      \<and> UpdateWorkerRoute J api zoneID routeID route = ([], Inl errOrganizationIDRequired))"
proof (intro impI conjI)
  assume org: "OrganizationID api = ''''"
  show "ListWorkerScripts J api = ([], Inl errOrganizationIDRequired)"
    using org by (simp add: ListWorkerScripts_def)
  {
    assume sn: "ScriptName rp \<noteq> ''''"
    show "DeleteWorker J api rp = ([], Inl errOrganizationIDRequired)"
      using org sn by (simp add: DeleteWorker_def deleteWorkerWithName_def)
    show "DownloadWorker api rp = ([], Inl errOrganizationIDRequired)"
      using org sn by (simp add: DownloadWorker_def downloadWorkerWithName_def)
    show "UploadWorker J api rp data = ([], Inl errOrganizationIDRequired)"
      using org sn by (simp add: UploadWorker_def multiScriptUpload_def)
    show "UploadWorkerWithBindings (go_json U) (go_multipart b) api rp
           \<lparr> WorkerScriptParams.Script = s, Bindings = inherit_bindings (go_json U) nbs \<rparr>
          = Returns ([], Inl errOrganizationIDRequired)"
      using org sn by (simp add: UploadWorkerWithBindings_inherit multiScriptUpload_def)
    {
      assume "UploadWorkerWithBindings J M api rp sp = Returns (calls, r)"
      from UploadWorkerWithBindings_no_org [OF org sn this]
      show "calls = []" "\<exists>err. r = Inl err" by simp_all
    }
  }
  {
    assume rs: "WorkerRoute.Script route \<noteq> ''''"
    show "CreateWorkerRoute J api zoneID route = ([], Inl errOrganizationIDRequired)"
      using org rs by (simp add: CreateWorkerRoute_def route_pathComponent_def)
    show "UpdateWorkerRoute J api zoneID routeID route = ([], Inl errOrganizationIDRequired)"
      using org rs by (simp add: UpdateWorkerRoute_def route_pathComponent_def)
  }
qed

theorem organization_required_witness:
  "OrganizationID (server_down '''') = ''''
   \<and> ScriptName \<lparr> ZoneID = '''', ScriptName = ''bar'' \<rparr> \<noteq> ''''
   \<and> WorkerRoute.Script scripted_route \<noteq> ''''
   \<and> DeleteWorker no_decode (server_down '''') \<lparr> ZoneID = '''', ScriptName = ''bar'' \<rparr>
       = ([], Inl errOrganizationIDRequired)
   \<and> DownloadWorker (server_down '''') \<lparr> ZoneID = '''', ScriptName = ''bar'' \<rparr>
       = ([], Inl errOrganizationIDRequired)
   \<and> UploadWorker no_decode (server_down '''') \<lparr> ZoneID = '''', ScriptName = ''bar'' \<rparr> ''S''
       = ([], Inl errOrganizationIDRequired)
   \<and> UploadWorkerWithBindings (go_json no_decode) (go_multipart ''B'') (server_down '''')
         \<lparr> ZoneID = '''', ScriptName = ''bar'' \<rparr>
         \<lparr> WorkerScriptParams.Script = ''S'', Bindings = inherit_bindings (go_json no_decode) b1_b2 \<rparr>
       = Returns ([], Inl errOrganizationIDRequired)
   \<and> ListWorkerScripts no_decode (server_down '''') = ([], Inl errOrganizationIDRequired)
   \<and> CreateWorkerRoute no_decode (server_down '''') ''foo'' scripted_route
       = ([], Inl errOrganizationIDRequired)
   \<and> UpdateWorkerRoute no_decode (server_down '''') ''foo'' ''e7a57d87'' scripted_route
       = ([], Inl errOrganizationIDRequired)"
proof -
  have org: "OrganizationID (server_down '''') = ''''"
    by (simp add: server_down_def)
  have sn: "ScriptName \<lparr> ZoneID = '''', ScriptName = ''bar'' \<rparr> \<noteq> ''''"
    by simp
  have rs: "WorkerRoute.Script scripted_route \<noteq> ''''"
    by (simp add: scripted_route_def)
  note t = organization_required
    [where api = "server_down ''''" and J = no_decode and U = no_decode and b = "''B''"
      and rp = "\<lparr> ZoneID = '''', ScriptName = ''bar'' \<rparr>" and data = "''S''" and s = "''S''"
      and nbs = b1_b2 and route = scripted_route and zoneID = "''foo''" and routeID = "''e7a57d87''"
      and M = "go_multipart ''B''" and calls = "[]" and r = "Inl errOrganizationIDRequired"
      and sp = "\<lparr> WorkerScriptParams.Script = ''S'', Bindings = [] \<rparr>",
      rule_format, OF org]
  show ?thesis
    using org sn rs t by simp
qed

lemma UploadWorkerWithBindings_calls:
  assumes "UploadWorkerWithBindings J M api rp sp = Returns (calls, r)"
  shows "calls = [] \<or>
         (\<exists>contentType body.
            calls = [MakeRequestWithHeaders ''PUT''
                       (if ScriptName rp \<noteq> ''''
                        then ''/accounts/'' @ OrganizationID api @ ''/workers/scripts/'' @ ScriptName rp
                        else ''/zones/'' @ ZoneID rp @ ''/workers/script'')
                       body [(''Content-Type'', contentType)]])"
  using assms
  by (auto simp: UploadWorkerWithBindings_def multiScriptUpload_def singleScriptUpload_def Let_def
      split: result.splits sum.splits prod.splits if_splits)

text \<open>C6. When the request parameters carry a script name, delete, download and upload take
  the multi-script branch: the result does not depend on the zone ID (replacing it by any
  other leaves the whole result unchanged), and the one request made, if the client has
  an organization ID, goes to the path of the script under the account; without
  organization ID no request is made. For an upload with bindings, whatever request is
  made goes to that path.\<close>

theorem script_name_selects_account_path:
  "ScriptName rp \<noteq> '''' \<longrightarrow>
     DeleteWorker J api (rp\<lparr> ZoneID := z \<rparr>) = DeleteWorker J api rp
   \<and> DownloadWorker api (rp\<lparr> ZoneID := z \<rparr>) = DownloadWorker api rp
   \<and> UploadWorker J api (rp\<lparr> ZoneID := z \<rparr>) data = UploadWorker J api rp data
   \<and> UploadWorkerWithBindings J M api (rp\<lparr> ZoneID := z \<rparr>) sp = UploadWorkerWithBindings J M api rp sp
   \<and> fst (DeleteWorker J api rp) =
       (if OrganizationID api = '''' then []
        else [MakeRequest ''DELETE''
                (''/accounts/'' @ OrganizationID api @ ''/workers/scripts/'' @ ScriptName rp) NoParams])
   \<and> fst (DownloadWorker api rp) =
       (if OrganizationID api = '''' then []
        else [MakeRequest ''GET''
                (''/accounts/'' @ OrganizationID api @ ''/workers/scripts/'' @ ScriptName rp) NoParams])
   \<and> fst (UploadWorker J api rp data) =
       (if OrganizationID api = '''' then []
        else [MakeRequestWithHeaders ''PUT''
                (''/accounts/'' @ OrganizationID api @ ''/workers/scripts/'' @ ScriptName rp) data
                [(''Content-Type'', ''application/javascript'')]])
   \<and> (UploadWorkerWithBindings J M api rp sp = Returns (calls, r) \<longrightarrow>
        calls = [] \<or>
        (\<exists>contentType body.
           calls = [MakeRequestWithHeaders ''PUT''
                      (''/accounts/'' @ OrganizationID api @ ''/workers/scripts/'' @ ScriptName rp)
                      body [(''Content-Type'', contentType)]]))"
proof (intro impI conjI)
  assume sn: "ScriptName rp \<noteq> ''''"
  show "DeleteWorker J api (rp\<lparr> ZoneID := z \<rparr>) = DeleteWorker J api rp"
    using sn by (simp add: DeleteWorker_def)
  show "DownloadWorker api (rp\<lparr> ZoneID := z \<rparr>) = DownloadWorker api rp"
    using sn by (simp add: DownloadWorker_def)
  show "UploadWorker J api (rp\<lparr> ZoneID := z \<rparr>) data = UploadWorker J api rp data"
    using sn by (simp add: UploadWorker_def)
  show "UploadWorkerWithBindings J M api (rp\<lparr> ZoneID := z \<rparr>) sp = UploadWorkerWithBindings J M api rp sp"
    using sn by (simp add: UploadWorkerWithBindings_def split: result.splits sum.splits prod.splits)
  show "fst (DeleteWorker J api rp) =
       (if OrganizationID api = '''' then []
        else [MakeRequest ''DELETE''
                (''/accounts/'' @ OrganizationID api @ ''/workers/scripts/'' @ ScriptName rp) NoParams])"
    using sn by (simp add: DeleteWorker_def deleteWorkerWithName_def Let_def)
  show "fst (DownloadWorker api rp) =
       (if OrganizationID api = '''' then []
        else [MakeRequest ''GET''
                (''/accounts/'' @ OrganizationID api @ ''/workers/scripts/'' @ ScriptName rp) NoParams])"
    using sn by (simp add: DownloadWorker_def downloadWorkerWithName_def Let_def)
  show "fst (UploadWorker J api rp data) =
       (if OrganizationID api = '''' then []
        else [MakeRequestWithHeaders ''PUT''
                (''/accounts/'' @ OrganizationID api @ ''/workers/scripts/'' @ ScriptName rp) data
                [(''Content-Type'', ''application/javascript'')]])"
    using sn by (simp add: UploadWorker_def multiScriptUpload_def Let_def)
  assume "UploadWorkerWithBindings J M api rp sp = Returns (calls, r)"
  from UploadWorkerWithBindings_calls [OF this] sn
  show "calls = [] \<or>
        (\<exists>contentType body.
           calls = [MakeRequestWithHeaders ''PUT''
                      (''/accounts/'' @ OrganizationID api @ ''/workers/scripts/'' @ ScriptName rp)
                      body [(''Content-Type'', contentType)]])"
    by simp
qed

theorem script_name_selects_account_path_witness:
  "ScriptName \<lparr> ZoneID = ''zone1'', ScriptName = ''bar'' \<rparr> \<noteq> ''''
   \<and> DeleteWorker no_decode (server_down ''foo'') \<lparr> ZoneID = ''zone2'', ScriptName = ''bar'' \<rparr>
       = DeleteWorker no_decode (server_down ''foo'') \<lparr> ZoneID = ''zone1'', ScriptName = ''bar'' \<rparr>
   \<and> fst (DeleteWorker no_decode (server_down ''foo'') \<lparr> ZoneID = ''zone1'', ScriptName = ''bar'' \<rparr>)
       = [MakeRequest ''DELETE'' ''/accounts/foo/workers/scripts/bar'' NoParams]
   \<and> fst (DownloadWorker (server_down ''foo'') \<lparr> ZoneID = ''zone1'', ScriptName = ''bar'' \<rparr>)
       = [MakeRequest ''GET'' ''/accounts/foo/workers/scripts/bar'' NoParams]
   \<and> fst (UploadWorker no_decode (server_down ''foo'') \<lparr> ZoneID = ''zone1'', ScriptName = ''bar'' \<rparr> ''S'')
       = [MakeRequestWithHeaders ''PUT'' ''/accounts/foo/workers/scripts/bar'' ''S''
            [(''Content-Type'', ''application/javascript'')]]"
proof -
  have sn: "ScriptName \<lparr> ZoneID = ''zone1'', ScriptName = ''bar'' \<rparr> \<noteq> ''''"
    by simp
  have org: "OrganizationID (server_down ''foo'') = ''foo''"
    by (simp add: server_down_def)
  note t = script_name_selects_account_path
    [where rp = "\<lparr> ZoneID = ''zone1'', ScriptName = ''bar'' \<rparr>" and J = no_decode
      and api = "server_down ''foo''" and z = "''zone2''" and data = "''S''"
      and M = "go_multipart ''B''" and sp = "\<lparr> WorkerScriptParams.Script = ''S'', Bindings = [] \<rparr>"
      and calls = "[]" and r = "Inl errOrganizationIDRequired", rule_format, OF sn]
  show ?thesis
    using sn t by (simp add: org)
qed

text \<open>C10. With an empty script name delete, download and upload check nothing locally:
  each makes exactly one request, to the path of the script under the zone built from the
  zone ID as given, which for an empty zone ID is "/zones//workers/script"; and the result
  is never the error of the organization check. For an upload with bindings this is stated
  where building the body succeeds, as it always does for inherit bindings on the Go
  library.\<close>

theorem single_script_no_validation:
  "ScriptName rp = '''' \<longrightarrow>
     fst (DeleteWorker J api rp) =
       [MakeRequest ''DELETE'' (''/zones/'' @ ZoneID rp @ ''/workers/script'') NoParams]
   \<and> fst (DownloadWorker api rp) =
       [MakeRequest ''GET'' (''/zones/'' @ ZoneID rp @ ''/workers/script'') NoParams]
   \<and> fst (UploadWorker J api rp data) =
       [MakeRequestWithHeaders ''PUT'' (''/zones/'' @ ZoneID rp @ ''/workers/script'') data
          [(''Content-Type'', ''application/javascript'')]]
   \<and> (formatMultipartBody J M sp = Returns (Inr (contentType, body)) \<longrightarrow>
        (\<exists>r. UploadWorkerWithBindings J M api rp sp =
              Returns ([MakeRequestWithHeaders ''PUT'' (''/zones/'' @ ZoneID rp @ ''/workers/script'') body
                          [(''Content-Type'', contentType)]], r)
            \<and> r \<noteq> Inl errOrganizationIDRequired))
   \<and> (\<exists>r. UploadWorkerWithBindings (go_json U) (go_multipart b) api rp
              \<lparr> WorkerScriptParams.Script = s, Bindings = inherit_bindings (go_json U) nbs \<rparr> =
            Returns ([MakeRequestWithHeaders ''PUT'' (''/zones/'' @ ZoneID rp @ ''/workers/script'')
                        (mime_part b True metadata_header (inherit_metadata nbs)
                         @ mime_part b False (script_header (scriptBodyPart_loop nbs ''script'')) s
                         @ mime_end b)
                        [(''Content-Type'', go_FormDataContentType b)]], r))
   \<and> snd (DeleteWorker J api rp) \<noteq> Inl errOrganizationIDRequired
   \<and> snd (DownloadWorker api rp) \<noteq> Inl errOrganizationIDRequired
   \<and> snd (UploadWorker J api rp data) \<noteq> Inl errOrganizationIDRequired
   \<and> (ZoneID rp = '''' \<longrightarrow>
        fst (DeleteWorker J api rp) = [MakeRequest ''DELETE'' ''/zones//workers/script'' NoParams]
      \<and> fst (DownloadWorker api rp) = [MakeRequest ''GET'' ''/zones//workers/script'' NoParams]
      \<and> fst (UploadWorker J api rp data) =
          [MakeRequestWithHeaders ''PUT'' ''/zones//workers/script'' data
             [(''Content-Type'', ''application/javascript'')]])"
proof (intro impI conjI)
  assume sn: "ScriptName rp = ''''"
  show d: "fst (DeleteWorker J api rp) =
       [MakeRequest ''DELETE'' (''/zones/'' @ ZoneID rp @ ''/workers/script'') NoParams]"
    using sn by (simp add: DeleteWorker_def Let_def)
  show g: "fst (DownloadWorker api rp) =
       [MakeRequest ''GET'' (''/zones/'' @ ZoneID rp @ ''/workers/script'') NoParams]"
    using sn by (simp add: DownloadWorker_def Let_def)
  show u: "fst (UploadWorker J api rp data) =
       [MakeRequestWithHeaders ''PUT'' (''/zones/'' @ ZoneID rp @ ''/workers/script'') data
          [(''Content-Type'', ''application/javascript'')]]"
    using sn by (simp add: UploadWorker_def singleScriptUpload_def Let_def)
  have ssu: "\<And>J' ct bd. snd (singleScriptUpload J' api (ZoneID rp) ct bd) \<noteq> Inl errOrganizationIDRequired"
    by (simp add: singleScriptUpload_def Let_def errOrganizationIDRequired_def split: sum.splits)
  have ssu_calls: "\<And>J' ct bd. fst (singleScriptUpload J' api (ZoneID rp) ct bd) =
      [MakeRequestWithHeaders ''PUT'' (''/zones/'' @ ZoneID rp @ ''/workers/script'') bd [(''Content-Type'', ct)]]"
    by (simp add: singleScriptUpload_def Let_def)
  show "snd (DeleteWorker J api rp) \<noteq> Inl errOrganizationIDRequired"
    using sn by (simp add: DeleteWorker_def Let_def errOrganizationIDRequired_def split: sum.splits)
  show "snd (DownloadWorker api rp) \<noteq> Inl errOrganizationIDRequired"
    using sn by (simp add: DownloadWorker_def Let_def errOrganizationIDRequired_def split: sum.splits)
  show "snd (UploadWorker J api rp data) \<noteq> Inl errOrganizationIDRequired"
    using sn ssu by (simp add: UploadWorker_def)
  show "\<exists>r. UploadWorkerWithBindings (go_json U) (go_multipart b) api rp
              \<lparr> WorkerScriptParams.Script = s, Bindings = inherit_bindings (go_json U) nbs \<rparr> =
            Returns ([MakeRequestWithHeaders ''PUT'' (''/zones/'' @ ZoneID rp @ ''/workers/script'')
                        (mime_part b True metadata_header (inherit_metadata nbs)
                         @ mime_part b False (script_header (scriptBodyPart_loop nbs ''script'')) s
                         @ mime_end b)
                        [(''Content-Type'', go_FormDataContentType b)]], r)"
    using sn by (simp add: UploadWorkerWithBindings_inherit singleScriptUpload_def Let_def)
  {
    assume "ZoneID rp = ''''"
    then show "fst (DeleteWorker J api rp) = [MakeRequest ''DELETE'' ''/zones//workers/script'' NoParams]"
      "fst (DownloadWorker api rp) = [MakeRequest ''GET'' ''/zones//workers/script'' NoParams]"
      "fst (UploadWorker J api rp data) =
          [MakeRequestWithHeaders ''PUT'' ''/zones//workers/script'' data
             [(''Content-Type'', ''application/javascript'')]]"
      using d g u by simp_all
  }
  assume fm: "formatMultipartBody J M sp = Returns (Inr (contentType, body))"
  have "UploadWorkerWithBindings J M api rp sp =
        Returns (singleScriptUpload J api (ZoneID rp) contentType body)"
    using sn fm by (simp add: UploadWorkerWithBindings_def)
  then have "UploadWorkerWithBindings J M api rp sp =
        Returns ([MakeRequestWithHeaders ''PUT'' (''/zones/'' @ ZoneID rp @ ''/workers/script'') body
                          [(''Content-Type'', contentType)]],
                 snd (singleScriptUpload J api (ZoneID rp) contentType body))"
    using ssu_calls [of J contentType body]
    by (metis prod.collapse)
  with ssu [of J contentType body]
  show "\<exists>r. UploadWorkerWithBindings J M api rp sp =
              Returns ([MakeRequestWithHeaders ''PUT'' (''/zones/'' @ ZoneID rp @ ''/workers/script'') body
                          [(''Content-Type'', contentType)]], r)
            \<and> r \<noteq> Inl errOrganizationIDRequired"
    by blast
qed

theorem single_script_no_validation_witness:
  "ScriptName \<lparr> ZoneID = '''', ScriptName = '''' \<rparr> = ''''
   \<and> fst (DeleteWorker no_decode (server_down '''') \<lparr> ZoneID = '''', ScriptName = '''' \<rparr>)
       = [MakeRequest ''DELETE'' ''/zones//workers/script'' NoParams]
   \<and> fst (DownloadWorker (server_down '''') \<lparr> ZoneID = '''', ScriptName = '''' \<rparr>)
       = [MakeRequest ''GET'' ''/zones//workers/script'' NoParams]
   \<and> fst (UploadWorker no_decode (server_down '''') \<lparr> ZoneID = '''', ScriptName = '''' \<rparr> ''S'')
       = [MakeRequestWithHeaders ''PUT'' ''/zones//workers/script'' ''S''
            [(''Content-Type'', ''application/javascript'')]]
   \<and> snd (DeleteWorker no_decode (server_down '''') \<lparr> ZoneID = '''', ScriptName = '''' \<rparr>)
       \<noteq> Inl errOrganizationIDRequired"
proof -
  have sn: "ScriptName \<lparr> ZoneID = '''', ScriptName = '''' \<rparr> = ''''"
    and z: "ZoneID \<lparr> ZoneID = '''', ScriptName = '''' \<rparr> = ''''"
    by simp_all
  note t = single_script_no_validation
    [where rp = "\<lparr> ZoneID = '''', ScriptName = '''' \<rparr>" and J = no_decode
      and api = "server_down ''''" and data = "''S''", THEN mp, OF sn]
  from t have a: "snd (DeleteWorker no_decode (server_down '''') \<lparr> ZoneID = '''', ScriptName = '''' \<rparr>)
       \<noteq> Inl errOrganizationIDRequired"
    by blast
  from t z have b: "fst (DeleteWorker no_decode (server_down '''') \<lparr> ZoneID = '''', ScriptName = '''' \<rparr>)
       = [MakeRequest ''DELETE'' ''/zones//workers/script'' NoParams]
     \<and> fst (DownloadWorker (server_down '''') \<lparr> ZoneID = '''', ScriptName = '''' \<rparr>)
       = [MakeRequest ''GET'' ''/zones//workers/script'' NoParams]
     \<and> fst (UploadWorker no_decode (server_down '''') \<lparr> ZoneID = '''', ScriptName = '''' \<rparr> ''S'')
       = [MakeRequestWithHeaders ''PUT'' ''/zones//workers/script'' ''S''
            [(''Content-Type'', ''application/javascript'')]]"
    by blast
  from sn a b show ?thesis by blast
qed

subsection \<open>Download\<close>

lemma downloaded_fields:
  "WorkerScript.Script (WorkerScript (downloaded res)) = res"
  "Success (WorkerScriptResponse.Response (downloaded res)) = True"
  by (simp_all add: downloaded_def Let_def)

text \<open>C8. A download whose request succeeds returns the bytes of the response as the Script
  field of the result, and a Success flag that the client sets to true itself. The
  response is not decoded: DownloadWorker takes no \<open>json_pkg\<close>. First conjunct: whenever
  a download returns a result, exactly one GET request was made, it succeeded, and Script
  is its response and Success is true. The other conjuncts: in either mode, when the
  request that the mode makes succeeds, the download returns that result.\<close>

theorem download_returns_raw_body:
  "(DownloadWorker api rp = (calls, Inr r) \<longrightarrow>
      (\<exists>uri res. calls = [MakeRequest ''GET'' uri NoParams]
         \<and> makeRequest api ''GET'' uri NoParams = Inr res
         \<and> WorkerScript.Script (WorkerScript r) = res
         \<and> Success (WorkerScriptResponse.Response r) = True))
   \<and> (ScriptName rp = '''' \<longrightarrow>
        makeRequest api ''GET'' (''/zones/'' @ ZoneID rp @ ''/workers/script'') NoParams = Inr res \<longrightarrow>
        snd (DownloadWorker api rp) = Inr (downloaded res))
   \<and> (ScriptName rp \<noteq> '''' \<longrightarrow> OrganizationID api \<noteq> '''' \<longrightarrow>
        makeRequest api ''GET''
          (''/accounts/'' @ OrganizationID api @ ''/workers/scripts/'' @ ScriptName rp) NoParams = Inr res \<longrightarrow>
        snd (DownloadWorker api rp) = Inr (downloaded res))
   \<and> WorkerScript.Script (WorkerScript (downloaded res)) = res
   \<and> Success (WorkerScriptResponse.Response (downloaded res)) = True"
proof (intro conjI impI)
  assume ret: "DownloadWorker api rp = (calls, Inr r)"
  show "\<exists>uri res. calls = [MakeRequest ''GET'' uri NoParams]
         \<and> makeRequest api ''GET'' uri NoParams = Inr res
         \<and> WorkerScript.Script (WorkerScript r) = res
         \<and> Success (WorkerScriptResponse.Response r) = True"
  proof (cases "ScriptName rp = ''''")
    case True
    let ?uri = "''/zones/'' @ ZoneID rp @ ''/workers/script''"
    from ret True obtain res where "makeRequest api ''GET'' ?uri NoParams = Inr res"
      and "r = downloaded res" and "calls = [MakeRequest ''GET'' ?uri NoParams]"
      by (auto simp: DownloadWorker_def Let_def split: sum.splits)
    then show ?thesis using downloaded_fields by blast
  next
    case False
    let ?uri = "''/accounts/'' @ OrganizationID api @ ''/workers/scripts/'' @ ScriptName rp"
    from ret False obtain res where "makeRequest api ''GET'' ?uri NoParams = Inr res"
      and "r = downloaded res" and "calls = [MakeRequest ''GET'' ?uri NoParams]"
      by (auto simp: DownloadWorker_def downloadWorkerWithName_def Let_def split: sum.splits if_splits)
    then show ?thesis using downloaded_fields by blast
  qed
next
  assume "ScriptName rp = ''''"
    and "makeRequest api ''GET'' (''/zones/'' @ ZoneID rp @ ''/workers/script'') NoParams = Inr res"
  then show "snd (DownloadWorker api rp) = Inr (downloaded res)"
    by (simp add: DownloadWorker_def Let_def)
next
  assume "ScriptName rp \<noteq> ''''" and "OrganizationID api \<noteq> ''''"
    and "makeRequest api ''GET''
          (''/accounts/'' @ OrganizationID api @ ''/workers/scripts/'' @ ScriptName rp) NoParams = Inr res"
  then show "snd (DownloadWorker api rp) = Inr (downloaded res)"
    by (simp add: DownloadWorker_def downloadWorkerWithName_def Let_def)
next
  show "WorkerScript.Script (WorkerScript (downloaded res)) = res"
    "Success (WorkerScriptResponse.Response (downloaded res)) = True"
    by (rule downloaded_fields)+
qed

theorem download_returns_raw_body_witness:
  "DownloadWorker (server_replies ''foo'' ''addEventListener()'') \<lparr> ZoneID = ''zone1'', ScriptName = '''' \<rparr>
     = ([MakeRequest ''GET'' ''/zones/zone1/workers/script'' NoParams], Inr (downloaded ''addEventListener()''))
   \<and> snd (DownloadWorker (server_replies ''foo'' ''addEventListener()'') \<lparr> ZoneID = '''', ScriptName = ''bar'' \<rparr>)
     = Inr (downloaded ''addEventListener()'')
   \<and> (\<exists>uri res. [MakeRequest ''GET'' ''/zones/zone1/workers/script'' NoParams] = [MakeRequest ''GET'' uri NoParams]
         \<and> makeRequest (server_replies ''foo'' ''addEventListener()'') ''GET'' uri NoParams = Inr res
         \<and> WorkerScript.Script (WorkerScript (downloaded ''addEventListener()'')) = res
         \<and> Success (WorkerScriptResponse.Response (downloaded ''addEventListener()'')) = True)"
proof -
  let ?api = "server_replies ''foo'' ''addEventListener()''"
  have ret: "DownloadWorker ?api \<lparr> ZoneID = ''zone1'', ScriptName = '''' \<rparr>
     = ([MakeRequest ''GET'' ''/zones/zone1/workers/script'' NoParams], Inr (downloaded ''addEventListener()''))"
    by (simp add: DownloadWorker_def server_replies_def Let_def)
  have h1: "ScriptName \<lparr> ZoneID = '''', ScriptName = ''bar'' \<rparr> \<noteq> ''''" by simp
  have h2: "OrganizationID ?api \<noteq> ''''" by (simp add: server_replies_def)
  have h3: "makeRequest ?api ''GET''
          (''/accounts/'' @ OrganizationID ?api @ ''/workers/scripts/''
             @ ScriptName \<lparr> ZoneID = '''', ScriptName = ''bar'' \<rparr>) NoParams = Inr ''addEventListener()''"
    by (simp add: server_replies_def)
  note t1 = download_returns_raw_body
    [where api = ?api and rp = "\<lparr> ZoneID = ''zone1'', ScriptName = '''' \<rparr>"
      and calls = "[MakeRequest ''GET'' ''/zones/zone1/workers/script'' NoParams]"
      and r = "downloaded ''addEventListener()''", THEN conjunct1, rule_format, OF ret]
  note t2 = download_returns_raw_body
    [where api = ?api and rp = "\<lparr> ZoneID = '''', ScriptName = ''bar'' \<rparr>"
      and res = "''addEventListener()''",
      THEN conjunct2, THEN conjunct2, THEN conjunct1, rule_format, OF h1 h2 h3]
  from ret t2 t1 show ?thesis by (intro conjI)
qed

subsection \<open>Listing routes\<close>

lemma routes_loop_nth:
  "length (routes_loop rs) = length rs \<and>
   (\<forall>i<length rs. routes_loop rs ! i =
      (if WorkerRoute.Script (rs ! i) \<noteq> '''' then (rs ! i)\<lparr> Enabled := True \<rparr> else rs ! i))"
proof (induction rs)
  case Nil
  then show ?case by simp
next
  case (Cons route rest)
  show ?case
  proof (intro conjI allI impI)
    show "length (routes_loop (route # rest)) = length (route # rest)"
      using Cons by simp
    fix i assume "i < length (route # rest)"
    then show "routes_loop (route # rest) ! i =
      (if WorkerRoute.Script ((route # rest) ! i) \<noteq> '''' then ((route # rest) ! i)\<lparr> Enabled := True \<rparr>
       else (route # rest) ! i)"
      using Cons by (cases i) simp_all
  qed
qed

text \<open>C5, as amended. A successful listing returns the routes that the response decodes
  to, one for one and in order, each changed in one way only: a route with a non-empty
  Script has Enabled set to true, whatever the server supplied, and a route with an empty
  Script is returned as decoded. This is so whether or not the client has an organization
  ID; the organization ID decides the path of the request only.\<close>

theorem listed_routes_enabled:
  "ListWorkerRoutes J api zoneID = (calls, Inr r) \<longrightarrow>
     (\<exists>res r0.
        calls = [MakeRequest ''GET''
                   (''/zones/'' @ zoneID @ ''/workers/''
                      @ (if OrganizationID api \<noteq> '''' then ''routes'' else ''filters'')) NoParams]
      \<and> makeRequest api ''GET''
           (''/zones/'' @ zoneID @ ''/workers/''
              @ (if OrganizationID api \<noteq> '''' then ''routes'' else ''filters'')) NoParams = Inr res
      \<and> Unmarshal_WorkerRoutesResponse J res = Inr r0
      \<and> WorkerRoutesResponse.Response r = WorkerRoutesResponse.Response r0
      \<and> length (Routes r) = length (Routes r0)
      \<and> (\<forall>i<length (Routes r0).
            Routes r ! i =
              (if WorkerRoute.Script (Routes r0 ! i) \<noteq> ''''
               then (Routes r0 ! i)\<lparr> Enabled := True \<rparr> else Routes r0 ! i)))"
proof
  assume ret: "ListWorkerRoutes J api zoneID = (calls, Inr r)"
  let ?uri = "''/zones/'' @ zoneID @ ''/workers/''
                @ (if OrganizationID api \<noteq> '''' then ''routes'' else ''filters'')"
  from ret obtain res r0 where c: "calls = [MakeRequest ''GET'' ?uri NoParams]"
    and mr: "makeRequest api ''GET'' ?uri NoParams = Inr res"
    and um: "Unmarshal_WorkerRoutesResponse J res = Inr r0"
    and r: "r = r0\<lparr> Routes := routes_loop (Routes r0) \<rparr>"
    by (auto simp: ListWorkerRoutes_def Let_def split: sum.splits if_splits)
  from r routes_loop_nth [of "Routes r0"]
  have "WorkerRoutesResponse.Response r = WorkerRoutesResponse.Response r0"
    "length (Routes r) = length (Routes r0)"
    "\<forall>i<length (Routes r0).
            Routes r ! i =
              (if WorkerRoute.Script (Routes r0 ! i) \<noteq> ''''
               then (Routes r0 ! i)\<lparr> Enabled := True \<rparr> else Routes r0 ! i)"
    by simp_all
  with c mr um show "\<exists>res r0.
        calls = [MakeRequest ''GET'' ?uri NoParams]
      \<and> makeRequest api ''GET'' ?uri NoParams = Inr res
      \<and> Unmarshal_WorkerRoutesResponse J res = Inr r0
      \<and> WorkerRoutesResponse.Response r = WorkerRoutesResponse.Response r0
      \<and> length (Routes r) = length (Routes r0)
      \<and> (\<forall>i<length (Routes r0).
            Routes r ! i =
              (if WorkerRoute.Script (Routes r0 ! i) \<noteq> ''''
               then (Routes r0 ! i)\<lparr> Enabled := True \<rparr> else Routes r0 ! i))"
    by blast
qed

theorem listed_routes_enabled_witness:
  "ListWorkerRoutes (decode_routes \<lparr> WorkerRoutesResponse.Response = success, Routes = [scripted_route] \<rparr>)
      (server_replies ''foo'' ''{}'') ''zone1''
     = ([MakeRequest ''GET'' ''/zones/zone1/workers/routes'' NoParams],
        Inr \<lparr> WorkerRoutesResponse.Response = success,
              Routes = [scripted_route\<lparr> Enabled := True \<rparr>] \<rparr>)
   \<and> (\<exists>res r0.
        Unmarshal_WorkerRoutesResponse
          (decode_routes \<lparr> WorkerRoutesResponse.Response = success, Routes = [scripted_route] \<rparr>) res = Inr r0
      \<and> length [scripted_route\<lparr> Enabled := True \<rparr>] = length (Routes r0)
      \<and> [scripted_route\<lparr> Enabled := True \<rparr>] ! 0 =
            (if WorkerRoute.Script (Routes r0 ! 0) \<noteq> ''''
             then (Routes r0 ! 0)\<lparr> Enabled := True \<rparr> else Routes r0 ! 0))"
proof -
  let ?J = "decode_routes \<lparr> WorkerRoutesResponse.Response = success, Routes = [scripted_route] \<rparr>"
  let ?api = "server_replies ''foo'' ''{}''"
  let ?r = "\<lparr> WorkerRoutesResponse.Response = success, Routes = [scripted_route\<lparr> Enabled := True \<rparr>] \<rparr>"
  have ret: "ListWorkerRoutes ?J ?api ''zone1''
     = ([MakeRequest ''GET'' ''/zones/zone1/workers/routes'' NoParams], Inr ?r)"
    by (simp add: ListWorkerRoutes_def decode_routes_def no_decode_def server_replies_def
        scripted_route_def Let_def)
  from listed_routes_enabled [where J = ?J and api = ?api and zoneID = "''zone1''"
      and calls = "[MakeRequest ''GET'' ''/zones/zone1/workers/routes'' NoParams]" and r = ?r,
      THEN mp, OF ret]
  obtain res r0 where um: "Unmarshal_WorkerRoutesResponse ?J res = Inr r0"
    and len: "length (Routes ?r) = length (Routes r0)"
    and idx: "\<forall>i<length (Routes r0).
            Routes ?r ! i =
              (if WorkerRoute.Script (Routes r0 ! i) \<noteq> ''''
               then (Routes r0 ! i)\<lparr> Enabled := True \<rparr> else Routes r0 ! i)"
    by blast
  from len have "0 < length (Routes r0)" by (cases "Routes r0") simp_all
  with idx have "Routes ?r ! 0 =
              (if WorkerRoute.Script (Routes r0 ! 0) \<noteq> ''''
               then (Routes r0 ! 0)\<lparr> Enabled := True \<rparr> else Routes r0 ! 0)"
    by blast
  with um len have "\<exists>res r0.
        Unmarshal_WorkerRoutesResponse ?J res = Inr r0
      \<and> length [scripted_route\<lparr> Enabled := True \<rparr>] = length (Routes r0)
      \<and> [scripted_route\<lparr> Enabled := True \<rparr>] ! 0 =
            (if WorkerRoute.Script (Routes r0 ! 0) \<noteq> ''''
             then (Routes r0 ! 0)\<lparr> Enabled := True \<rparr> else Routes r0 ! 0)"
    by auto
  with ret show ?thesis by (rule conjI)
qed

text \<open>C5, as the claim states it, fails in single-script mode: on a client without
  organization ID, a listing whose response decodes to a route with a script and with
  Enabled false returns that route with Enabled true.\<close>

theorem single_script_listing_counterexample:
  "OrganizationID (server_replies '''' ''{}'') = ''''
   \<and> Unmarshal_WorkerRoutesResponse
        (decode_routes \<lparr> WorkerRoutesResponse.Response = success, Routes = [scripted_route] \<rparr>) ''{}''
      = Inr \<lparr> WorkerRoutesResponse.Response = success, Routes = [scripted_route] \<rparr>
   \<and> Enabled scripted_route = False
   \<and> ListWorkerRoutes (decode_routes \<lparr> WorkerRoutesResponse.Response = success, Routes = [scripted_route] \<rparr>)
        (server_replies '''' ''{}'') ''zone1''
      = ([MakeRequest ''GET'' ''/zones/zone1/workers/filters'' NoParams],
         Inr \<lparr> WorkerRoutesResponse.Response = success,
               Routes = [\<lparr> WorkerRoute.ID = ''e7a57d8746e74ae49c25994dadb421b1'',
                           Pattern = ''app1.example.com/*'', Enabled = True,
                           WorkerRoute.Script = ''test_script_1'' \<rparr>] \<rparr>)"
  by (simp add: ListWorkerRoutes_def decode_routes_def no_decode_def server_replies_def
      scripted_route_def Let_def)

subsection \<open>Upload without bindings\<close>

text \<open>C1, as amended. An upload through UploadWorker, the entry point that takes no
  bindings, makes at most one request (none only when a script name is given on a client
  without organization ID); its body is the script as given and its only header is
  Content-Type: application/javascript. An upload through UploadWorkerWithBindings with
  an empty binding map is sent as multipart/form-data all the same: the body is the
  metadata part, with an empty bindings list, and the script part.\<close>

theorem upload_without_bindings:
  \<open>fst (UploadWorker J api rp data) =
     (if ScriptName rp \<noteq> '''' then
        (if OrganizationID api = '''' then []
         else [MakeRequestWithHeaders ''PUT''
                 (''/accounts/'' @ OrganizationID api @ ''/workers/scripts/'' @ ScriptName rp) data
                 [(''Content-Type'', ''application/javascript'')]])
      else [MakeRequestWithHeaders ''PUT'' (''/zones/'' @ ZoneID rp @ ''/workers/script'') data
              [(''Content-Type'', ''application/javascript'')]])
   \<and> UploadWorkerWithBindings (go_json U) (go_multipart b) api rp
        \<lparr> WorkerScriptParams.Script = data, Bindings = [] \<rparr> =
      Returns
        (if ScriptName rp \<noteq> ''''
         then multiScriptUpload (go_json U) api (ScriptName rp) (go_FormDataContentType b)
                (mime_part b True metadata_header ''{"body_part":"script","bindings":[]}''
                 @ mime_part b False (script_header ''script'') data @ mime_end b)
         else singleScriptUpload (go_json U) api (ZoneID rp) (go_FormDataContentType b)
                (mime_part b True metadata_header ''{"body_part":"script","bindings":[]}''
                 @ mime_part b False (script_header ''script'') data @ mime_end b))\<close>
proof (intro conjI)
  show "fst (UploadWorker J api rp data) =
     (if ScriptName rp \<noteq> '''' then
        (if OrganizationID api = '''' then []
         else [MakeRequestWithHeaders ''PUT''
                 (''/accounts/'' @ OrganizationID api @ ''/workers/scripts/'' @ ScriptName rp) data
                 [(''Content-Type'', ''application/javascript'')]])
      else [MakeRequestWithHeaders ''PUT'' (''/zones/'' @ ZoneID rp @ ''/workers/script'') data
              [(''Content-Type'', ''application/javascript'')]])"
    by (simp add: UploadWorker_def multiScriptUpload_def singleScriptUpload_def Let_def)
  have nm: "scriptBodyPart_loop ([] :: (string \<times> WorkerInheritBinding) list) ''script'' = ''script''"
    by (subst scriptBodyPart_loop.simps) (simp add: hasKey_def)
  have md: \<open>inherit_metadata [] = ''{"body_part":"script","bindings":[]}''\<close>
    by (simp add: inherit_metadata_def nm json_string_def json_escape_def Let_def)
  have ib: "inherit_bindings (go_json U) [] = ([] :: (string \<times> Writer WorkerBinding) list)"
    by (simp add: inherit_bindings_def)
  show \<open>UploadWorkerWithBindings (go_json U) (go_multipart b) api rp
        \<lparr> WorkerScriptParams.Script = data, Bindings = [] \<rparr> =
      Returns
        (if ScriptName rp \<noteq> ''''
         then multiScriptUpload (go_json U) api (ScriptName rp) (go_FormDataContentType b)
                (mime_part b True metadata_header ''{"body_part":"script","bindings":[]}''
                 @ mime_part b False (script_header ''script'') data @ mime_end b)
         else singleScriptUpload (go_json U) api (ZoneID rp) (go_FormDataContentType b)
                (mime_part b True metadata_header ''{"body_part":"script","bindings":[]}''
                 @ mime_part b False (script_header ''script'') data @ mime_end b))\<close>
    using UploadWorkerWithBindings_inherit [of U b api rp data "[]"]
    by (simp add: ib md nm Let_def)
qed

theorem upload_without_bindings_witness:
  "fst (UploadWorker no_decode (server_down '''') \<lparr> ZoneID = ''foo'', ScriptName = '''' \<rparr> ''S'')
     = [MakeRequestWithHeaders ''PUT'' ''/zones/foo/workers/script'' ''S''
          [(''Content-Type'', ''application/javascript'')]]
   \<and> fst (UploadWorker no_decode (server_down ''foo'') \<lparr> ZoneID = '''', ScriptName = ''bar'' \<rparr> ''S'')
     = [MakeRequestWithHeaders ''PUT'' ''/accounts/foo/workers/scripts/bar'' ''S''
          [(''Content-Type'', ''application/javascript'')]]"
  using upload_without_bindings
      [where J = no_decode and api = "server_down ''''"
        and rp = "\<lparr> ZoneID = ''foo'', ScriptName = '''' \<rparr>" and data = "''S''", THEN conjunct1]
    upload_without_bindings
      [where J = no_decode and api = "server_down ''foo''"
        and rp = "\<lparr> ZoneID = '''', ScriptName = ''bar'' \<rparr>" and data = "''S''", THEN conjunct1]
  by (simp add: server_down_def)

text \<open>C1, as the claim states it, fails: the upload of a script with an empty binding map
  through UploadWorkerWithBindings makes a request whose Content-Type is
  multipart/form-data and whose body is the multipart message, not the script.\<close>

theorem empty_bindings_multipart_counterexample:
  \<open>UploadWorkerWithBindings (go_json no_decode) (go_multipart ''B'') (server_down '''')
      \<lparr> ZoneID = ''foo'', ScriptName = '''' \<rparr>
      \<lparr> WorkerScriptParams.Script = ''S'', Bindings = [] \<rparr>
    = Returns
        ([MakeRequestWithHeaders ''PUT'' ''/zones/foo/workers/script''
            (mime_part ''B'' True metadata_header ''{"body_part":"script","bindings":[]}''
             @ mime_part ''B'' False (script_header ''script'') ''S'' @ mime_end ''B'')
            [(''Content-Type'', ''multipart/form-data; boundary=B'')]],
         Inl (Wrap (ErrorNew ''connection refused'') errMakeRequestError))
   \<and> ''multipart/form-data; boundary=B'' \<noteq> ''application/javascript''
   \<and> mime_part ''B'' True metadata_header ''{"body_part":"script","bindings":[]}''
       @ mime_part ''B'' False (script_header ''script'') ''S'' @ mime_end ''B'' \<noteq> ''S''\<close>
proof (intro conjI)
  have nm: "scriptBodyPart_loop ([] :: (string \<times> WorkerInheritBinding) list) ''script'' = ''script''"
    by (subst scriptBodyPart_loop.simps) (simp add: hasKey_def)
  have md: \<open>inherit_metadata [] = ''{"body_part":"script","bindings":[]}''\<close>
    by (simp add: inherit_metadata_def nm json_string_def json_escape_def Let_def)
  have ib: "inherit_bindings (go_json no_decode) [] = ([] :: (string \<times> Writer WorkerBinding) list)"
    by (simp add: inherit_bindings_def)
  have ct: "go_FormDataContentType ''B'' = ''multipart/form-data; boundary=B''"
    by code_simp
  show \<open>UploadWorkerWithBindings (go_json no_decode) (go_multipart ''B'') (server_down '''')
      \<lparr> ZoneID = ''foo'', ScriptName = '''' \<rparr>
      \<lparr> WorkerScriptParams.Script = ''S'', Bindings = [] \<rparr>
    = Returns
        ([MakeRequestWithHeaders ''PUT'' ''/zones/foo/workers/script''
            (mime_part ''B'' True metadata_header ''{"body_part":"script","bindings":[]}''
             @ mime_part ''B'' False (script_header ''script'') ''S'' @ mime_end ''B'')
            [(''Content-Type'', ''multipart/form-data; boundary=B'')]],
         Inl (Wrap (ErrorNew ''connection refused'') errMakeRequestError))\<close>
    using UploadWorkerWithBindings_inherit [of no_decode "''B''" "server_down ''''"
        "\<lparr> ZoneID = ''foo'', ScriptName = '''' \<rparr>" "''S''" "[]"]
    by (simp add: ib md nm ct Let_def singleScriptUpload_def server_down_def)
  show "''multipart/form-data; boundary=B'' \<noteq> ''application/javascript''"
    by simp
  show \<open>mime_part ''B'' True metadata_header ''{"body_part":"script","bindings":[]}''
       @ mime_part ''B'' False (script_header ''script'') ''S'' @ mime_end ''B'' \<noteq> ''S''\<close>
    by (simp add: mime_part_def)
qed

end
